theory Spec2Isabelle
  imports Complex_Main "HOL-Library.Multiset"
begin

section \<open>Instants, time zones and the platform's date formatting\<close>

text \<open>
  A JavaScript \<open>Date\<close> is a number of milliseconds since 1970-01-01T00:00:00Z; ISO
  timestamps stored in a session denote such instants. A time zone is given by its UTC
  offset (in milliseconds) in force at each instant. The functions of the application take
  the zone named by their constant \<open>TZ\<close> as a parameter, so that what is proved about them
  holds for whatever rules the platform's zone database has for it.
\<close>

type_synonym instant = int
type_synonym zone = "instant \<Rightarrow> int"

definition MS_PER_MINUTE :: int where "MS_PER_MINUTE = 60000"
definition MS_PER_HOUR :: int where "MS_PER_HOUR = 3600000"
definition MS_PER_DAY :: int where "MS_PER_DAY = 86400000"

definition localMs :: "zone \<Rightarrow> instant \<Rightarrow> int" where
  "localMs z t = t + z t"

definition dayNumber :: "zone \<Rightarrow> instant \<Rightarrow> int" where
  "dayNumber z t = localMs z t div MS_PER_DAY"

definition weekdayIndex :: "zone \<Rightarrow> instant \<Rightarrow> int" where
  \<comment> \<open>0 = Sunday ... 6 = Saturday; 1970-01-01 was a Thursday.\<close>
  "weekdayIndex z t = (dayNumber z t + 4) mod 7"

definition hourOfDay :: "zone \<Rightarrow> instant \<Rightarrow> int" where
  "hourOfDay z t = (localMs z t mod MS_PER_DAY) div MS_PER_HOUR"

definition minuteOfHour :: "zone \<Rightarrow> instant \<Rightarrow> int" where
  "minuteOfHour z t = (localMs z t mod MS_PER_HOUR) div MS_PER_MINUTE"

definition minuteOfDay :: "zone \<Rightarrow> instant \<Rightarrow> int" where
  \<comment> \<open>The wall-clock minute of the day, 0 .. 1439.\<close>
  "minuteOfDay z t = (localMs z t mod MS_PER_DAY) div MS_PER_MINUTE"

text \<open>
  Day number to proleptic Gregorian (year, month, day), and back, by eras of 400 years that
  start on a 1st of March; each step is a function of the values computed before it.
\<close>

definition civil_of_month :: "int \<Rightarrow> int \<Rightarrow> int \<Rightarrow> int \<times> int \<times> int" where
  "civil_of_month y m d = (if m \<le> 2 then y + 1 else y, m, d)"

definition civil_of_mp :: "int \<Rightarrow> int \<Rightarrow> int \<Rightarrow> int \<times> int \<times> int" where
  "civil_of_mp y doy mp =
     civil_of_month y (if mp < 10 then mp + 3 else mp - 9) (doy - (153 * mp + 2) div 5 + 1)"

definition civil_of_doy :: "int \<Rightarrow> int \<Rightarrow> int \<times> int \<times> int" where
  "civil_of_doy y doy = civil_of_mp y doy ((5 * doy + 2) div 153)"

definition civil_of_yoe :: "int \<Rightarrow> int \<Rightarrow> int \<Rightarrow> int \<times> int \<times> int" where
  "civil_of_yoe era doe yoe =
     civil_of_doy (yoe + era * 400) (doe - (365 * yoe + yoe div 4 - yoe div 100))"

definition civil_of_era :: "int \<Rightarrow> int \<Rightarrow> int \<times> int \<times> int" where
  "civil_of_era era doe =
     civil_of_yoe era doe ((doe - doe div 1460 + doe div 36524 - doe div 146096) div 365)"

definition civil_from_days :: "int \<Rightarrow> int \<times> int \<times> int" where
  "civil_from_days n = civil_of_era ((n + 719468) div 146097) ((n + 719468) mod 146097)"

definition days_of_era :: "int \<Rightarrow> int \<Rightarrow> int \<Rightarrow> int" where
  "days_of_era era yoe doy =
     era * 146097 + (yoe * 365 + yoe div 4 - yoe div 100 + doy) - 719468"

definition days_from_civil :: "int \<Rightarrow> int \<Rightarrow> int \<Rightarrow> int" where
  "days_from_civil y m d =
     days_of_era ((if m \<le> 2 then y - 1 else y) div 400) ((if m \<le> 2 then y - 1 else y) mod 400)
       ((153 * (if m > 2 then m - 3 else m + 9) + 2) div 5 + d - 1)"

text \<open>
  The zone \<open>America/New_York\<close> under the rules in force since 2007: daylight time (UTC-4)
  from 02:00 EST on the second Sunday of March to 02:00 EDT on the first Sunday of November,
  standard time (UTC-5) otherwise. It is the concrete zone at which the theorems below are
  evaluated.
\<close>

definition firstSundayOnOrAfter :: "int \<Rightarrow> int" where
  "firstSundayOnOrAfter n = n + (7 - (n + 4) mod 7) mod 7"

definition dstStart :: "int \<Rightarrow> instant" where
  "dstStart y = firstSundayOnOrAfter (days_from_civil y 3 8) * MS_PER_DAY + 7 * MS_PER_HOUR"

definition dstEnd :: "int \<Rightarrow> instant" where
  "dstEnd y = firstSundayOnOrAfter (days_from_civil y 11 1) * MS_PER_DAY + 6 * MS_PER_HOUR"

definition offsetInYear :: "int \<Rightarrow> instant \<Rightarrow> int" where
  "offsetInYear y t = (if dstStart y \<le> t \<and> t < dstEnd y then - 4 * MS_PER_HOUR else - 5 * MS_PER_HOUR)"

definition America_New_York :: zone where
  "America_New_York t = offsetInYear (fst (civil_from_days (t div MS_PER_DAY))) t"

subsection \<open>Decimal strings\<close>

definition digit_char :: "nat \<Rightarrow> char" where
  "digit_char n = ''0123456789'' ! (n mod 10)"

definition is_digit :: "char \<Rightarrow> bool" where
  "is_digit c = (c \<in> set ''0123456789'')"

definition digit_value :: "char \<Rightarrow> int" where
  "digit_value c = int (of_char c) - 48"

fun toString :: "nat \<Rightarrow> string" where
  "toString n = (if n < 10 then [digit_char n] else toString (n div 10) @ [digit_char (n mod 10)])"

declare toString.simps [simp del]

definition pad2 :: "nat \<Rightarrow> string" where
  \<comment> \<open>\<open>n.toString().padStart(2, '0')\<close>\<close>
  "pad2 n = (let s = toString n in replicate (2 - length s) (CHR ''0'') @ s)"

definition parseInt :: "string \<Rightarrow> int" where
  \<comment> \<open>\<open>parseInt(s, 10)\<close> on a string that starts with a digit, as every numeric part of
      the formatter does: the leading run of digits, read in base 10.\<close>
  "parseInt s = foldl (\<lambda>a c. 10 * a + digit_value c) 0 (takeWhile is_digit s)"

definition lowerChar :: "char \<Rightarrow> char" where
  "lowerChar c =
     (case map_of (zip ''ABCDEFGHIJKLMNOPQRSTUVWXYZ'' ''abcdefghijklmnopqrstuvwxyz'') c of
        Some l \<Rightarrow> l
      | None \<Rightarrow> c)"

definition toLowerCase :: "string \<Rightarrow> string" where
  "toLowerCase s = map lowerChar s"

definition startsWith :: "string \<Rightarrow> string \<Rightarrow> bool" where
  "startsWith s p = (take (length p) s = p)"

subsection \<open>\<open>Intl.DateTimeFormat(...).formatToParts\<close>\<close>

text \<open>
  The parts the two formatters of the application ask for, in the locale \<open>en-US\<close> with
  \<open>hour12: false\<close>: the short weekday name, the numeric year, and month, day, hour
  (00 .. 23) and minute with two digits, all of the wall clock of the zone.
\<close>

record parts =
  weekday :: string
  year :: string
  month :: string
  day :: string
  hour :: string
  minute :: string

definition weekdayShort :: "int \<Rightarrow> string" where
  "weekdayShort i = [''Sun'', ''Mon'', ''Tue'', ''Wed'', ''Thu'', ''Fri'', ''Sat''] ! nat i"

definition showYear :: "int \<Rightarrow> string" where
  "showYear y = (if y < 0 then CHR ''-'' # toString (nat (- y)) else toString (nat y))"

definition formatToParts :: "zone \<Rightarrow> instant \<Rightarrow> parts" where
  "formatToParts z t =
     (case civil_from_days (dayNumber z t) of (y, m, d) \<Rightarrow>
        \<lparr> weekday = weekdayShort (weekdayIndex z t),
          year = showYear y,
          month = pad2 (nat m),
          day = pad2 (nat d),
          hour = pad2 (nat (hourOfDay z t)),
          minute = pad2 (nat (minuteOfHour z t)) \<rparr>)"

section \<open>Configuration and helpers of the application\<close>

definition TWO_HOURS_MIN :: int where "TWO_HOURS_MIN = 120"
definition ASP_START_MIN :: int where "ASP_START_MIN = 19 * 60 + 30"
definition ASP_END_MIN :: int where "ASP_END_MIN = 21 * 60 + 30"

definition isAspOpen :: "zone \<Rightarrow> instant \<Rightarrow> bool" where
  "isAspOpen TZ date =
     (let p = formatToParts TZ date;
          wd = toLowerCase (weekday p);
          h = parseInt (hour p);
          mi = parseInt (minute p);
          isMon = startsWith wd ''mon'';
          isWed = startsWith wd ''wed'';
          minutes = h * 60 + mi;
          start = 19 * 60 + 30;
          end = 21 * 60 + 30
      in (isMon \<or> isWed) \<and> minutes \<ge> start \<and> minutes < end)"

definition msToMin :: "int \<Rightarrow> int" where
  \<comment> \<open>\<open>Math.max(0, Math.floor(ms / 60000))\<close>\<close>
  "msToMin ms = max 0 (ms div 60000)"

record etFields =
  et_y :: int
  et_m :: int
  et_da :: int
  et_h :: int
  et_mi :: int

definition etParts :: "zone \<Rightarrow> instant \<Rightarrow> etFields" where
  "etParts TZ d =
     (let p = formatToParts TZ d
      in \<lparr> et_y = parseInt (year p), et_m = parseInt (month p), et_da = parseInt (day p),
           et_h = parseInt (hour p), et_mi = parseInt (minute p) \<rparr>)"

definition etDateKey :: "zone \<Rightarrow> instant \<Rightarrow> string" where
  "etDateKey TZ d =
     (let f = etParts TZ d
      in showYear (et_y f) @ ''-'' @ pad2 (nat (et_m f)) @ ''-'' @ pad2 (nat (et_da f)))"

definition minutesOfDayET :: "zone \<Rightarrow> instant \<Rightarrow> int" where
  "minutesOfDayET TZ d = (let f = etParts TZ d in et_h f * 60 + et_mi f)"

definition overlapMinutesET :: "int \<Rightarrow> int \<Rightarrow> int \<Rightarrow> int \<Rightarrow> int" where
  "overlapMinutesET aStartMin aEndMin bStartMin bEndMin =
     (let a1 = max aStartMin bStartMin;
          b1 = min aEndMin bEndMin
      in max 0 (b1 - a1))"

section \<open>Data model\<close>

datatype Klass = K1C | K2C | K3C | K4C

record cadet =
  c_id :: string
  c_name :: string
  c_klass :: Klass
  c_company :: string

text \<open>
  A session row. The ISO strings \<open>sign_in\<close> and \<open>sign_out\<close> are held as the instants
  they denote (\<open>new Date(iso).getTime()\<close>); \<open>None\<close> is \<open>null\<close>, the session still
  being open. A row without the \<open>voided\<close> field counts as not voided. The field \<open>id\<close> of
  a cadet is \<open>c_id\<close> here and that of a session \<open>s_id\<close>, and the other fields of a cadet
  carry the same prefix, since the fields of two records need different names.
\<close>

record session =
  s_id :: string
  cadet_id :: string
  sign_in :: instant
  sign_out :: "instant option"
  voided :: bool

definition endOrNow :: "session \<Rightarrow> instant \<Rightarrow> instant" where
  \<comment> \<open>\<open>new Date(s.sign_out ?? now)\<close>\<close>
  "endOrNow s now = (case sign_out s of None \<Rightarrow> now | Some e \<Rightarrow> e)"

section \<open>Minute accounting\<close>

fun tonightLoop :: "zone \<Rightarrow> string \<Rightarrow> instant \<Rightarrow> session list \<Rightarrow> int \<Rightarrow> int" where
  \<comment> \<open>The \<open>for\<close> loop of \<open>minutesTonightET\<close>; \<open>acc\<close> is its running \<open>sum\<close>.\<close>
  "tonightLoop TZ tonightKey now [] acc = acc"
| "tonightLoop TZ tonightKey now (s # ss) acc =
     (let sIn = sign_in s;
          sOut = endOrNow s now
      in if etDateKey TZ sIn \<noteq> tonightKey then tonightLoop TZ tonightKey now ss acc
         else
           let a = minutesOfDayET TZ sIn;
               b = minutesOfDayET TZ sOut;
               seg = overlapMinutesET a b ASP_START_MIN ASP_END_MIN
           in tonightLoop TZ tonightKey now ss (acc + seg))"

definition seg :: "zone \<Rightarrow> instant \<Rightarrow> session \<Rightarrow> int" where
  \<comment> \<open>What one pass of the loop adds for a session of tonight.\<close>
  "seg TZ now s =
     overlapMinutesET (minutesOfDayET TZ (sign_in s)) (minutesOfDayET TZ (endOrNow s now))
       ASP_START_MIN ASP_END_MIN"

definition minutesTonightET :: "zone \<Rightarrow> session list \<Rightarrow> instant \<Rightarrow> int" where
  "minutesTonightET TZ sessions now =
     (let tonightKey = etDateKey TZ now;
          acc = tonightLoop TZ tonightKey now sessions 0
      in min acc TWO_HOURS_MIN)"

text \<open>
  An overlap on the scale of minutes of the day: the number of minutes of the day that lie
  both from minute \<open>a\<close> up to, not including, minute \<open>b\<close> and in the window from minute 1170
  up to, not including, minute 1290.
\<close>

definition windowOverlap_spec :: "int \<Rightarrow> int \<Rightarrow> int" where
  "windowOverlap_spec a b = int (card ({a ..< b} \<inter> {1170 ..< 1290}))"

definition clamp :: "int \<Rightarrow> int \<Rightarrow> int \<Rightarrow> int" where
  \<comment> \<open>The value nearest to \<open>x\<close> in the range from \<open>lo\<close> to \<open>hi\<close>.\<close>
  "clamp lo hi x = (if x < lo then lo else if hi < x then hi else x)"

section \<open>The store and the state of the component\<close>

text \<open>
  The tables \<open>cadets\<close>, \<open>sessions\<close> and \<open>leaderboard_overrides\<close> of the remote store, the
  entries of \<open>localStorage\<close>, and the state variables of the component, as one record that
  every handler takes and returns. \<open>cadet\<close> and \<open>activeSession\<close> stand for the state
  variable and for its cached copy (\<open>asp_current_cadet\<close>, \<open>asp_active_session\<close>), which the
  handlers write together. A call to the remote store answers with data or with an error;
  whether it fails is an input of the handler. A handler's result is the session it
  returns to the component or the kind of error it reports; its status line is in the state.
  The leaderboard that the handlers reload at their end is computed from the store by
  \<open>fetchLeaderboard\<close> and is no part of the state.
\<close>

datatype error =
  ValidationError | ClosedWindowError | CapExceededError | NoOpenSessionError | PersistenceError

datatype status =
  EnterNameAndClass | AspClosed | CadetSaveFailed | ResumedSession | AlreadyTwoHours
  | SignInFailed | SignedIn | SignedInLocal | SignOutFailed | SignedOut | AutoSignedOut
  | EditingRequiresSupabase | CouldNotResolveCadet | CadetNotFound | SavedEdits | SaveFailed

text \<open>
  The value of a \<open>datetime-local\<close> input: empty, a text that is no date, or
  \<open>YYYY-MM-DDTHH:mm\<close>, a minute of the device's wall clock, held as the number of that minute
  counted from 1970-01-01T00:00 of the same wall clock.
\<close>

datatype local_input = Blank | Unparsable | LocalMinute int

record draft =
  d_sign_in :: local_input
  d_sign_out :: local_input

record row =
  r_cadetId :: "string option"
  r_name :: string
  r_klass :: Klass
  r_company :: string
  totalMin :: int

record state =
  db_cadets :: "cadet list"
  db_sessions :: "session list"
  db_overrides :: "(string \<times> int) list"
  ls_sessions :: "session list"
  ls_cadets :: "(string \<times> cadet) list"
  cadet :: "cadet option"
  activeSession :: "session option"
  name :: string
  klass :: "Klass option"
  company :: string
  statusMsg :: "status option"
  editCadet :: "cadet option"
  editSessions :: "session list"
  editDraft :: "(string \<times> draft) list"
  editOverride :: "rat option"

datatype 'a response = Failed | Data 'a

definition maybeSingle :: "bool \<Rightarrow> 'a list \<Rightarrow> 'a option response" where
  \<comment> \<open>\<open>.maybeSingle()\<close>: no row is \<open>null\<close>, one row is that row, several rows are an error.\<close>
  "maybeSingle err rows =
     (if err then Failed
      else case rows of [] \<Rightarrow> Data None | [r] \<Rightarrow> Data (Some r) | _ \<Rightarrow> Failed)"

definition setItem :: "'k \<Rightarrow> 'v \<Rightarrow> ('k \<times> 'v) list \<Rightarrow> ('k \<times> 'v) list" where
  "setItem k v kvs = (k, v) # filter (\<lambda>kv. fst kv \<noteq> k) kvs"

definition removeItem :: "'k \<Rightarrow> ('k \<times> 'v) list \<Rightarrow> ('k \<times> 'v) list" where
  "removeItem k kvs = filter (\<lambda>kv. fst kv \<noteq> k) kvs"

definition upsertCadet :: "cadet \<Rightarrow> cadet list \<Rightarrow> cadet list" where
  \<comment> \<open>\<open>upsert({id, name, klass, company}, {onConflict: 'id'})\<close>\<close>
  "upsertCadet c cadets =
     (if \<exists>r \<in> set cadets. c_id r = c_id c
      then map (\<lambda>r. if c_id r = c_id c then c else r) cadets
      else cadets @ [c])"

definition updateWhereId :: "string \<Rightarrow> (session \<Rightarrow> session) \<Rightarrow> session list \<Rightarrow> session list" where
  \<comment> \<open>\<open>from('sessions').update(...).eq('id', i)\<close>\<close>
  "updateWhereId i f sessions = map (\<lambda>s. if s_id s = i then f s else s) sessions"

fun updateFirst :: "string \<Rightarrow> (session \<Rightarrow> session) \<Rightarrow> session list \<Rightarrow> session list" where
  \<comment> \<open>\<open>idx = hist.findIndex(s => s.id === i); if (idx >= 0) hist[idx] = f(hist[idx])\<close>\<close>
  "updateFirst i f [] = []"
| "updateFirst i f (s # ss) = (if s_id s = i then f s # ss else s # updateFirst i f ss)"

section \<open>Signing in\<close>

definition isSpace :: "char \<Rightarrow> bool" where
  \<comment> \<open>The ASCII members of the class \<open>\s\<close>.\<close>
  "isSpace c = (c \<in> set [CHR '' '', CHR 0x09, CHR 0x0A, CHR 0x0B, CHR 0x0C, CHR 0x0D])"

definition trim :: "string \<Rightarrow> string" where
  "trim s = rev (dropWhile isSpace (rev (dropWhile isSpace s)))"

function collapseSpaces :: "string \<Rightarrow> string" where
  \<comment> \<open>\<open>.replace(/\s+/g, " ")\<close>\<close>
  "collapseSpaces [] = []"
| "collapseSpaces (c # cs) =
     (if isSpace c then CHR '' '' # collapseSpaces (dropWhile isSpace cs)
      else c # collapseSpaces cs)"
  by pat_completeness auto
termination
  by (relation "measure length") (auto simp: length_dropWhile_le less_Suc_eq_le)

definition normalizeName :: "string \<Rightarrow> string" where
  "normalizeName raw = collapseSpaces (trim raw)"

text \<open>
  What one call of \<open>handleSignIn\<close> reads from outside: the clock, at each of the four
  places where the handler reads it; the two identifiers \<open>crypto.randomUUID()\<close> delivers;
  and, for each call to the remote store, whether it answers with an error.
\<close>

record signin_env =
  now_check :: instant
  now_since :: instant
  now_guard :: instant
  now_iso :: instant
  uuid_cadet :: string
  uuid_session :: string
  err_exact :: bool
  err_ci :: bool
  err_upsert :: bool
  err_open :: bool
  err_recent :: bool
  err_insert :: bool

definition resolveCadetId ::
  "(string \<Rightarrow> string \<Rightarrow> bool) \<Rightarrow> signin_env \<Rightarrow> state \<Rightarrow> cadet \<Rightarrow> string option" where
  \<comment> \<open>Step 1: the exact match, then the case-insensitive one; \<open>ilike v p\<close> is the store's
      \<open>v ILIKE p\<close>.\<close>
  "resolveCadetId ilike e st c =
     (case maybeSingle (err_exact e)
             (filter (\<lambda>r. c_name r = c_name c \<and> c_klass r = c_klass c \<and> c_company r = c_company c)
                (db_cadets st)) of
        Data (Some r) \<Rightarrow> Some (c_id r)
      | _ \<Rightarrow>
          (if err_ci e then None
           else case filter (\<lambda>r. ilike (c_name r) (c_name c) \<and> c_klass r = c_klass c
                                  \<and> c_company r = c_company c) (db_cadets st) of
                  [] \<Rightarrow> None
                | r # _ \<Rightarrow> Some (c_id r)))"

definition resolvedCadet ::
  "(string \<Rightarrow> string \<Rightarrow> bool) \<Rightarrow> signin_env \<Rightarrow> state \<Rightarrow> cadet \<Rightarrow> cadet" where
  \<comment> \<open>\<open>if (resolvedId) c.id = resolvedId\<close>\<close>
  "resolvedCadet ilike e st c =
     (case resolveCadetId ilike e st c of Some i \<Rightarrow> c\<lparr>c_id := i\<rparr> | None \<Rightarrow> c)"

definition formCadet :: "signin_env \<Rightarrow> state \<Rightarrow> Klass \<Rightarrow> cadet" where
  \<comment> \<open>The cadet built from the form and a fresh identifier.\<close>
  "formCadet e st k =
     \<lparr> c_id = uuid_cadet e, c_name = normalizeName (name st), c_klass = k,
       c_company = company st \<rparr>"

definition ilikePlain :: "string \<Rightarrow> string \<Rightarrow> bool" where
  \<comment> \<open>\<open>v ILIKE p\<close> for a pattern \<open>p\<close> of letters, digits and spaces, which has no wildcard.\<close>
  "ilikePlain v p = (toLowerCase v = toLowerCase p)"

definition saveLocalCadet :: "cadet \<Rightarrow> state \<Rightarrow> state" where
  "saveLocalCadet c st = st\<lparr>cadet := Some c, ls_cadets := setItem (c_id c) c (ls_cadets st)\<rparr>"

definition openSessionsOf :: "string \<Rightarrow> session list \<Rightarrow> session list" where
  \<comment> \<open>\<open>.eq('cadet_id', i).is('sign_out', null)\<close>\<close>
  "openSessionsOf i sessions = filter (\<lambda>s. cadet_id s = i \<and> sign_out s = None) sessions"

definition recentSessions :: "instant \<Rightarrow> string \<Rightarrow> session list \<Rightarrow> session list" where
  \<comment> \<open>\<open>.eq('cadet_id', i).eq('voided', false).gte('sign_in', since).order('sign_in',
      {ascending: false})\<close>\<close>
  "recentSessions since i sessions =
     sort_key (\<lambda>s. - sign_in s)
       (filter (\<lambda>s. cadet_id s = i \<and> \<not> voided s \<and> sign_in s \<ge> since) sessions)"

definition newSessionRow :: "signin_env \<Rightarrow> cadet \<Rightarrow> session" where
  "newSessionRow e c =
     \<lparr> s_id = uuid_session e, cadet_id = c_id c, sign_in = now_iso e, sign_out = None,
       voided = False \<rparr>"

definition signInRemote ::
  "zone \<Rightarrow> (string \<Rightarrow> string \<Rightarrow> bool) \<Rightarrow> signin_env \<Rightarrow> state \<Rightarrow> cadet
     \<Rightarrow> (error + session) \<times> state" where
  "signInRemote TZ ilike e st c0 =
     (let c = resolvedCadet ilike e st c0
      in if err_upsert e then (Inl PersistenceError, st\<lparr>statusMsg := Some CadetSaveFailed\<rparr>)
         else
           let st1 = st\<lparr>db_cadets := upsertCadet c (db_cadets st)\<rparr>
           in case maybeSingle (err_open e) (openSessionsOf (c_id c) (db_sessions st1)) of
                Data (Some found) \<Rightarrow>
                  (let existing = found\<lparr>voided := False\<rparr>
                   in (Inr existing,
                       (saveLocalCadet c st1)
                         \<lparr>activeSession := Some existing, statusMsg := Some ResumedSession\<rparr>))
              | _ \<Rightarrow>
                  (let since = now_since e - 36 * 60 * 60 * 1000;
                       recent = recentSessions since (c_id c) (db_sessions st1)
                   in if \<not> err_recent e
                         \<and> minutesTonightET TZ recent (now_guard e) \<ge> TWO_HOURS_MIN
                      then (Inl CapExceededError, st1\<lparr>statusMsg := Some AlreadyTwoHours\<rparr>)
                      else if err_insert e
                      then (Inl PersistenceError, st1\<lparr>statusMsg := Some SignInFailed\<rparr>)
                      else
                        let newSession = newSessionRow e c
                        in (Inr newSession,
                            (saveLocalCadet c st1)
                              \<lparr>db_sessions := db_sessions st1 @ [newSession],
                               activeSession := Some newSession,
                               statusMsg := Some SignedIn\<rparr>)))"

definition signInLocal :: "signin_env \<Rightarrow> state \<Rightarrow> cadet \<Rightarrow> (error + session) \<times> state" where
  "signInLocal e st c =
     (let newSession = newSessionRow e c
      in (Inr newSession,
          (saveLocalCadet c st)
            \<lparr>ls_sessions := ls_sessions st @ [newSession],
             activeSession := Some newSession,
             statusMsg := Some SignedInLocal\<rparr>))"

definition handleSignIn ::
  "zone \<Rightarrow> (string \<Rightarrow> string \<Rightarrow> bool) \<Rightarrow> bool \<Rightarrow> signin_env \<Rightarrow> state
     \<Rightarrow> (error + session) \<times> state" where
  "handleSignIn TZ ilike hasSupabase e st =
     (case klass st of
        None \<Rightarrow> (Inl ValidationError, st\<lparr>statusMsg := Some EnterNameAndClass\<rparr>)
      | Some k \<Rightarrow>
          if name st = [] then (Inl ValidationError, st\<lparr>statusMsg := Some EnterNameAndClass\<rparr>)
          else if \<not> isAspOpen TZ (now_check e)
          then (Inl ClosedWindowError, st\<lparr>statusMsg := Some AspClosed\<rparr>)
          else
            let c = formCadet e st k
            in if hasSupabase then signInRemote TZ ilike e st c else signInLocal e st c)"

section \<open>Signing out, by hand and by the two-hour timer\<close>

definition handleSignOut :: "bool \<Rightarrow> instant \<Rightarrow> bool \<Rightarrow> state \<Rightarrow> (error + unit) \<times> state" where
  \<comment> \<open>\<open>now\<close> is the clock read for \<open>nowIso\<close>; \<open>err\<close>: the store rejects the update. The
      remote update ends in \<open>.select().single()\<close>, an error unless exactly one row matched.\<close>
  "handleSignOut hasSupabase now err st =
     (case activeSession st of
        None \<Rightarrow> (Inl NoOpenSessionError, st)
      | Some a \<Rightarrow>
          if hasSupabase then
            (if err \<or> length (filter (\<lambda>s. s_id s = s_id a) (db_sessions st)) \<noteq> 1
             then (Inl PersistenceError, st\<lparr>statusMsg := Some SignOutFailed\<rparr>)
             else (Inr (),
                   st\<lparr>db_sessions :=
                        updateWhereId (s_id a) (\<lambda>s. s\<lparr>sign_out := Some now\<rparr>) (db_sessions st),
                      activeSession := None, statusMsg := Some SignedOut\<rparr>))
          else (Inr (),
                st\<lparr>ls_sessions :=
                     updateFirst (s_id a) (\<lambda>s. s\<lparr>sign_out := Some now\<rparr>) (ls_sessions st),
                   activeSession := None, statusMsg := Some SignedOut\<rparr>))"



section \<open>The leaderboard\<close>

definition distinctFirst :: "'a list \<Rightarrow> 'a list" where
  \<comment> \<open>The iteration order of \<open>new Set(xs)\<close>: each element at its first occurrence.\<close>
  "distinctFirst xs = rev (remdups (rev xs))"

definition localTotal :: "instant \<Rightarrow> session list \<Rightarrow> string \<Rightarrow> int" where
  \<comment> \<open>\<open>raw.filter(s => s.cadet_id === id).reduce((acc, s) => acc + msToMin(...), 0)\<close>\<close>
  "localTotal now raw i =
     foldl (\<lambda>acc s. acc + msToMin (endOrNow s now - sign_in s)) 0
       (filter (\<lambda>s. cadet_id s = i) raw)"

definition localRows :: "instant \<Rightarrow> state \<Rightarrow> row list" where
  \<comment> \<open>The local fallback of \<open>fetchLeaderboard\<close>.\<close>
  "localRows now st =
     (let raw = ls_sessions st;
          ids = distinctFirst (map cadet_id raw);
          rows = concat (map (\<lambda>i. case map_of (ls_cadets st) i of
                                     None \<Rightarrow> []
                                   | Some c \<Rightarrow>
                                       [\<lparr> r_cadetId = None, r_name = c_name c, r_klass = c_klass c,
                                          r_company = c_company c,
                                          totalMin = localTotal now raw i \<rparr>]) ids)
      in sort_key (\<lambda>r. - totalMin r) rows)"

definition fetchLeaderboard :: "bool \<Rightarrow> (row \<times> rat) list option \<Rightarrow> instant \<Rightarrow> state \<Rightarrow> row list" where
  \<comment> \<open>\<open>rpc\<close>: what the remote procedures of the store deliver (each row with its
      \<open>total_min\<close>), or \<open>None\<close> when both answer with an error. The totals of these rows are
      computed in the store, not here.\<close>
  "fetchLeaderboard hasSupabase rpc now st =
     (case (if hasSupabase then rpc else None) of
        Some rows \<Rightarrow> map (\<lambda>(r, total_min). r\<lparr>totalMin := \<lfloor>total_min\<rfloor>\<rparr>) rows
      | None \<Rightarrow> localRows now st)"

record shown =
  s_row :: row
  total :: int

definition displayRows :: "Klass option \<Rightarrow> row list \<Rightarrow> (string \<times> int) list \<Rightarrow> shown list" where
  \<comment> \<open>The rows of one tab of the leaderboard (\<open>None\<close> is the tab \<open>all\<close>).\<close>
  "displayRows tab leaderboard overridesMap =
     sort_key (\<lambda>r. - total r)
       (map (\<lambda>r. let override = (case r_cadetId r of None \<Rightarrow> None
                                  | Some i \<Rightarrow> map_of overridesMap i)
                 in \<lparr> s_row = r,
                      total = (case override of Some v \<Rightarrow> v | None \<Rightarrow> totalMin r) \<rparr>)
          (filter (\<lambda>r. case tab of None \<Rightarrow> True | Some k \<Rightarrow> r_klass r = k) leaderboard))"

definition pmiDays :: "shown \<Rightarrow> int" where
  \<comment> \<open>\<open>Math.floor(r.total/240)\<close>\<close>
  "pmiDays r = total r div 240"

section \<open>The administrator's edit panel\<close>

text \<open>
  The device's own zone, in which \<open>getFullYear\<close> ... \<open>getMinutes\<close>, \<open>setDate\<close>, \<open>setHours\<close>
  and the parsing of a \<open>datetime-local\<close> value work, is given by its UTC offset in
  milliseconds, taken as constant over the days a computation looks at.
\<close>

definition fmtLocal :: "int \<Rightarrow> instant \<Rightarrow> local_input" where
  \<comment> \<open>\<open>`${y}-${m}-${da}T${h}:${mi}`\<close> of the device's wall clock\<close>
  "fmtLocal off t = LocalMinute ((t + off) div MS_PER_MINUTE)"

definition parseLocal :: "int \<Rightarrow> local_input \<Rightarrow> instant option" where
  \<comment> \<open>\<open>new Date(v)\<close>; \<open>None\<close> is an invalid date\<close>
  "parseLocal off v = (case v of LocalMinute m \<Rightarrow> Some (m * MS_PER_MINUTE - off) | _ \<Rightarrow> None)"

definition openEditForLeaderboardRow ::
  "(string \<Rightarrow> string \<Rightarrow> bool) \<Rightarrow> bool \<Rightarrow> int \<Rightarrow> row \<Rightarrow> state \<Rightarrow> state" where
  \<comment> \<open>Every read of the store is taken to answer.\<close>
  "openEditForLeaderboardRow ilike hasSupabase off r st =
     (if \<not> hasSupabase then st\<lparr>statusMsg := Some EditingRequiresSupabase\<rparr>
      else
        let same = (\<lambda>c. c_klass c = r_klass r \<and> c_company c = r_company r);
            cadId =
              (case r_cadetId r of
                 Some i \<Rightarrow> Some i
               | None \<Rightarrow>
                   (case filter (\<lambda>c. c_name c = r_name r \<and> same c) (db_cadets st) of
                      c # _ \<Rightarrow> Some (c_id c)
                    | [] \<Rightarrow>
                        (case filter (\<lambda>c. ilike (c_name c) (r_name r) \<and> same c) (db_cadets st) of
                           c # _ \<Rightarrow> Some (c_id c)
                         | [] \<Rightarrow> None)))
        in case cadId of
             None \<Rightarrow> st\<lparr>statusMsg := Some CouldNotResolveCadet\<rparr>
           | Some i \<Rightarrow>
               (case maybeSingle False (filter (\<lambda>c. c_id c = i) (db_cadets st)) of
                  Data (Some cad) \<Rightarrow>
                    (let typed = take 50 (sort_key (\<lambda>s. - sign_in s)
                                   (filter (\<lambda>s. cadet_id s = c_id cad) (db_sessions st)));
                         overrideVal = map_option rat_of_int (map_of (db_overrides st) (c_id cad))
                     in st\<lparr>editCadet := Some cad,
                           editSessions := typed,
                           editDraft :=
                             map (\<lambda>s. (s_id s,
                                        \<lparr> d_sign_in = fmtLocal off (sign_in s),
                                          d_sign_out = (case sign_out s of
                                                          None \<Rightarrow> Blank
                                                        | Some t \<Rightarrow> fmtLocal off t) \<rparr>)) typed,
                           editOverride := overrideVal\<rparr>)
                | _ \<Rightarrow> st\<lparr>statusMsg := Some CadetNotFound\<rparr>))"

record edit =
  u_id :: string
  u_sign_in :: instant
  u_sign_out :: "instant option"

fun buildUpdates :: "int \<Rightarrow> (string \<times> draft) list \<Rightarrow> edit list option" where
  \<comment> \<open>\<open>Object.entries(editDraft).map(...)\<close>; \<open>None\<close>: \<open>toISOString\<close> throws on an invalid
      date, before any update is sent.\<close>
  "buildUpdates off [] = Some []"
| "buildUpdates off ((i, v) # rest) =
     (case parseLocal off (d_sign_in v) of
        None \<Rightarrow> None
      | Some t_in \<Rightarrow>
          (case (if d_sign_out v = Blank then Some None
                 else map_option Some (parseLocal off (d_sign_out v))) of
             None \<Rightarrow> None
           | Some t_out \<Rightarrow>
               (case buildUpdates off rest of
                  None \<Rightarrow> None
                | Some us \<Rightarrow> Some (\<lparr> u_id = i, u_sign_in = t_in, u_sign_out = t_out \<rparr> # us))))"

fun applyUpdates :: "(string \<Rightarrow> bool) \<Rightarrow> edit list \<Rightarrow> session list \<Rightarrow> bool \<times> session list" where
  \<comment> \<open>The loop over \<open>updates\<close>; \<open>fails i\<close>: the store rejects the update of session \<open>i\<close>,
      and the loop throws. The flag tells whether it ran to its end.\<close>
  "applyUpdates fails [] sessions = (True, sessions)"
| "applyUpdates fails (u # us) sessions =
     (if fails (u_id u) then (False, sessions)
      else applyUpdates fails us
             (updateWhereId (u_id u)
                (\<lambda>s. s\<lparr>sign_in := u_sign_in u, sign_out := u_sign_out u\<rparr>) sessions))"

record edits_env =
  device_offset :: int
  update_fails :: "string \<Rightarrow> bool"
  err_override :: bool
  err_delete :: bool

definition saveEdits :: "bool \<Rightarrow> edits_env \<Rightarrow> state \<Rightarrow> (error + unit) \<times> state" where
  \<comment> \<open>Without the remote store or without a cadet being edited the handler returns at
      once, which is not a failure.\<close>
  "saveEdits hasSupabase e st =
     (case editCadet st of
        None \<Rightarrow> (Inr (), st)
      | Some ec \<Rightarrow>
          if \<not> hasSupabase then (Inr (), st)
          else
            (case buildUpdates (device_offset e) (editDraft st) of
              None \<Rightarrow> (Inl PersistenceError, st\<lparr>statusMsg := Some SaveFailed\<rparr>)
            | Some updates \<Rightarrow>
                (case applyUpdates (update_fails e) updates (db_sessions st) of
                   (False, sessions1) \<Rightarrow>
                     (Inl PersistenceError,
                      st\<lparr>db_sessions := sessions1, statusMsg := Some SaveFailed\<rparr>)
                 | (True, sessions1) \<Rightarrow>
                     (let st1 = st\<lparr>db_sessions := sessions1\<rparr>;
                          done = (\<lambda>s. s\<lparr>statusMsg := Some SavedEdits, editCadet := None,
                                        editSessions := [], editDraft := [],
                                        editOverride := None\<rparr>)
                      in case editOverride st of
                           Some q \<Rightarrow>
                             (let minutes = max 0 \<lfloor>q\<rfloor>
                              in if err_override e
                                 then (Inl PersistenceError, st1\<lparr>statusMsg := Some SaveFailed\<rparr>)
                                 else (Inr (),
                                       done (st1\<lparr>db_overrides :=
                                                  setItem (c_id ec) minutes (db_overrides st1)\<rparr>)))
                         | None \<Rightarrow>
                             (Inr (),
                              done (if err_delete e then st1
                                    else st1\<lparr>db_overrides :=
                                               removeItem (c_id ec) (db_overrides st1)\<rparr>))))))"

section \<open>The next window\<close>

definition getDay :: "int \<Rightarrow> instant \<Rightarrow> int" where
  "getDay off d = ((d + off) div MS_PER_DAY + 4) mod 7"

definition addDays :: "instant \<Rightarrow> int \<Rightarrow> instant" where
  \<comment> \<open>\<open>d = new Date(now); d.setDate(now.getDate() + add)\<close>\<close>
  "addDays now add = now + add * MS_PER_DAY"

definition setHours1930 :: "int \<Rightarrow> instant \<Rightarrow> instant" where
  \<comment> \<open>\<open>dt.setHours(19, 30, 0, 0)\<close>\<close>
  "setHours1930 off d =
     ((d + off) div MS_PER_DAY) * MS_PER_DAY + 19 * MS_PER_HOUR + 30 * MS_PER_MINUTE - off"

definition candidates :: "int \<Rightarrow> instant \<Rightarrow> instant list" where
  "candidates off now =
     (let targetDays = [1, 3]
      in map (\<lambda>add. setHours1930 off (addDays now add))
           (filter (\<lambda>add. getDay off (addDays now add) \<in> set targetDays) [0 ..< 8]))"

definition nextWindow :: "int \<Rightarrow> instant \<Rightarrow> instant" where
  \<comment> \<open>The instant \<open>upcoming\<close> that the memo formats for display;
      \<open>fmt.format(undefined)\<close> formats the present instant.\<close>
  "nextWindow off now =
     (case find (\<lambda>d. d > now) (candidates off now) of
        Some d \<Rightarrow> d
      | None \<Rightarrow> (case candidates off now of c # _ \<Rightarrow> c | [] \<Rightarrow> now))"

section \<open>The credit of a session as the specification words it\<close>

text \<open>
  The minutes of a session that fall inside the open window of the session's own date:
  the overlap of the interval from the sign-in to the sign-out (or to \<open>now\<close>) with the
  window from 19:30 to 21:30 of the day of the sign-in, on a Monday or a Wednesday, in whole
  minutes; nothing for a voided session.
\<close>

definition windowCredit_spec :: "zone \<Rightarrow> instant \<Rightarrow> session \<Rightarrow> int" where
  "windowCredit_spec TZ now s =
     (let a = localMs TZ (sign_in s);
          b = localMs TZ (endOrNow s now);
          w0 = dayNumber TZ (sign_in s) * MS_PER_DAY + 1170 * MS_PER_MINUTE;
          w1 = dayNumber TZ (sign_in s) * MS_PER_DAY + 1290 * MS_PER_MINUTE
      in if voided s \<or> \<not> (weekdayIndex TZ (sign_in s) = 1 \<or> weekdayIndex TZ (sign_in s) = 3)
         then 0
         else max 0 (min b w1 - max a w0) div MS_PER_MINUTE)"

section \<open>Concrete inputs\<close>

text \<open>
  The inputs at which the theorems are evaluated: instants of Monday 2025-01-06 on the
  wall clock of New York (whose midnight is 2025-01-06T05:00:00Z), a cadet, sessions of
  that cadet, a store holding them with the form filled in for that cadet, and a call of
  \<open>handleSignIn\<close> that reads the same instant at each place and meets no error.
\<close>

definition dateKey :: "int \<Rightarrow> string" where
  \<comment> \<open>The key \<open>etDateKey\<close> builds for an instant of the day with the given number.\<close>
  "dateKey n =
     (case civil_from_days n of (y, m, d) \<Rightarrow>
        showYear (parseInt (showYear y)) @ ''-'' @ pad2 (nat (parseInt (pad2 (nat m))))
          @ ''-'' @ pad2 (nat (parseInt (pad2 (nat d)))))"

definition monday :: "int \<Rightarrow> int \<Rightarrow> int \<Rightarrow> instant" where
  "monday h m s = 1736139600000 + h * 3600000 + m * 60000 + s * 1000"

definition pat :: cadet where
  "pat = \<lparr> c_id = ''c1'', c_name = ''Pat Doe'', c_klass = K1C, c_company = ''G1'' \<rparr>"

definition sessionOfPat :: "string \<Rightarrow> instant \<Rightarrow> instant option \<Rightarrow> session" where
  "sessionOfPat i a b =
     \<lparr> s_id = i, cadet_id = ''c1'', sign_in = a, sign_out = b, voided = False \<rparr>"

definition storeOfPat :: "session list \<Rightarrow> state" where
  "storeOfPat ss =
     \<lparr> db_cadets = [pat], db_sessions = ss, db_overrides = [], ls_sessions = [],
       ls_cadets = [], cadet = None, activeSession = None, name = ''Pat Doe'',
       klass = Some K1C, company = ''G1'', statusMsg = None, editCadet = None,
       editSessions = [], editDraft = [], editOverride = None \<rparr>"

definition callAt :: "instant \<Rightarrow> signin_env" where
  "callAt t =
     \<lparr> now_check = t, now_since = t, now_guard = t, now_iso = t, uuid_cadet = ''c-new'',
       uuid_session = ''s-new'', err_exact = False, err_ci = False, err_upsert = False,
       err_open = False, err_recent = False, err_insert = False \<rparr>"

definition rowOfPat :: row where
  "rowOfPat =
     \<lparr> r_cadetId = Some ''c1'', r_name = ''Pat Doe'', r_klass = K1C, r_company = ''G1'',
       totalMin = 29 \<rparr>"

definition deviceInNewYork :: int where
  \<comment> \<open>The offset of a device on Eastern Standard Time.\<close>
  "deviceInNewYork = - 18000000"

definition saveAt :: "(string \<Rightarrow> bool) \<Rightarrow> edits_env" where
  \<comment> \<open>A call of \<open>saveEdits\<close> on that device, the store rejecting the updates of the
      sessions that \<open>fails\<close> names and nothing else.\<close>
  "saveAt fails =
     \<lparr> device_offset = deviceInNewYork, update_fails = fails, err_override = False,
       err_delete = False \<rparr>"

section \<open>The calendar date, and the accrual of a night as the specification words it\<close>

definition calendarDate :: "zone \<Rightarrow> instant \<Rightarrow> int \<times> int \<times> int" where
  \<comment> \<open>Year, month and day of the wall clock of the zone.\<close>
  "calendarDate z t = civil_from_days (dayNumber z t)"

definition keyFields :: "string \<Rightarrow> int \<times> int \<times> int" where
  \<comment> \<open>The three numbers of a key \<open>Y-MM-DD\<close>, read back; it serves to show that the
      keys of two dates are equal only if the dates are.\<close>
  "keyFields k =
     (parseInt k,
      parseInt (tl (dropWhile is_digit k)),
      parseInt (tl (dropWhile is_digit (tl (dropWhile is_digit k)))))"

text \<open>
  The accrual as the specification words it: among the sessions whose sign-in falls on the
  calendar date of \<open>now\<close> in the zone, the overlap, in whole minutes, of the interval from
  the instant of the sign-in to the instant of the sign-out (to \<open>now\<close> where the session has
  no sign-out) with the window from 19:30 to 21:30 of that date; summed, and the sum clamped
  to 0 .. 120.
\<close>

definition intervalOverlap_spec :: "zone \<Rightarrow> instant \<Rightarrow> instant \<Rightarrow> int" where
  "intervalOverlap_spec TZ a b =
     (let w0 = dayNumber TZ a * MS_PER_DAY + 1170 * MS_PER_MINUTE;
          w1 = dayNumber TZ a * MS_PER_DAY + 1290 * MS_PER_MINUTE
      in max 0 (min (localMs TZ b) w1 - max (localMs TZ a) w0) div MS_PER_MINUTE)"

definition accruedTonight_spec :: "zone \<Rightarrow> session list \<Rightarrow> instant \<Rightarrow> int" where
  "accruedTonight_spec TZ sessions now =
     clamp 0 120
       (\<Sum>s \<leftarrow> filter (\<lambda>s. calendarDate TZ (sign_in s) = calendarDate TZ now) sessions.
          intervalOverlap_spec TZ (sign_in s)
            (case sign_out s of None \<Rightarrow> now | Some e \<Rightarrow> e))"

text \<open>
  The same accrual with the overlap taken on the scale of minutes of the day: each end of
  the session is first reduced to the whole minute of the day it falls in, on the wall clock
  of the zone.
\<close>

definition accruedTonight_byMinute_spec :: "zone \<Rightarrow> session list \<Rightarrow> instant \<Rightarrow> int" where
  "accruedTonight_byMinute_spec TZ sessions now =
     clamp 0 120
       (\<Sum>s \<leftarrow> filter (\<lambda>s. calendarDate TZ (sign_in s) = calendarDate TZ now) sessions.
          windowOverlap_spec (minuteOfDay TZ (sign_in s))
            (minuteOfDay TZ (case sign_out s of None \<Rightarrow> now | Some e \<Rightarrow> e)))"

section \<open>Facts about the formatter\<close>

lemmas time_defs =
  America_New_York_def offsetInYear_def dstStart_def dstEnd_def firstSundayOnOrAfter_def
  days_from_civil_def days_of_era_def civil_from_days_def civil_of_era_def civil_of_yoe_def
  civil_of_doy_def civil_of_mp_def civil_of_month_def MS_PER_DAY_def MS_PER_HOUR_def
  MS_PER_MINUTE_def localMs_def dayNumber_def weekdayIndex_def minuteOfDay_def

lemma America_New_York_2025:
  "America_New_York 1741503599999 = - 18000000"
  "America_New_York 1741503600000 = - 14400000"
  "America_New_York 1762063199999 = - 14400000"
  "America_New_York 1762063200000 = - 18000000"
  by (simp_all add: time_defs)

lemma digit_char_props:
  assumes "k < 10"
  shows "is_digit (digit_char k)" and "digit_value (digit_char k) = int k"
proof -
  from assms have "k \<in> {0, 1, 2, 3, 4, 5, 6, 7, 8, 9}" by auto
  then show "is_digit (digit_char k)" and "digit_value (digit_char k) = int k"
    by (auto simp: is_digit_def digit_char_def digit_value_def)
qed

lemma pad2_small: "n < 10 \<Longrightarrow> pad2 n = [CHR ''0'', digit_char n]"
  by (simp add: pad2_def toString.simps [of n] numeral_2_eq_2)

lemma pad2_two:
  assumes "10 \<le> n" and "n < 100"
  shows "pad2 n = [digit_char (n div 10), digit_char (n mod 10)]"
proof -
  from assms have "n div 10 < 10" by simp
  then have "toString (n div 10) = [digit_char (n div 10)]"
    by (simp add: toString.simps [of "n div 10"])
  with assms have "toString n = [digit_char (n div 10), digit_char (n mod 10)]"
    by (simp add: toString.simps [of n])
  then show ?thesis by (simp add: pad2_def)
qed

lemma parseInt_pad2:
  assumes "n < 100"
  shows "parseInt (pad2 n) = int n"
proof (cases "n < 10")
  case True
  then show ?thesis
    using digit_char_props [of n]
    by (simp add: pad2_small parseInt_def is_digit_def digit_value_def)
next
  case False
  with assms have p: "pad2 n = [digit_char (n div 10), digit_char (n mod 10)]"
    by (simp add: pad2_two)
  from assms have "n div 10 < 10" "n mod 10 < 10" by simp_all
  then have "parseInt (pad2 n) = 10 * int (n div 10) + int (n mod 10)"
    using digit_char_props [of "n div 10"] digit_char_props [of "n mod 10"]
    by (simp add: p parseInt_def)
  also have "\<dots> = int (10 * (n div 10) + n mod 10)"
    by (simp only: of_nat_add of_nat_mult of_nat_numeral)
  also have "\<dots> = int n" by simp
  finally show ?thesis .
qed

lemma parseInt_pad2_int: "0 \<le> h \<Longrightarrow> h < 100 \<Longrightarrow> parseInt (pad2 (nat h)) = h"
  using parseInt_pad2 [of "nat h"] by simp

lemma hourOfDay_range: "0 \<le> hourOfDay z t \<and> hourOfDay z t < 24"
proof -
  define r where "r = localMs z t mod 86400000"
  have "0 \<le> r" "r < 86400000" by (simp_all add: r_def)
  then have "0 \<le> r div 3600000 \<and> r div 3600000 < 24" by arith
  then show ?thesis by (simp add: hourOfDay_def MS_PER_DAY_def MS_PER_HOUR_def r_def)
qed

lemma minuteOfHour_range: "0 \<le> minuteOfHour z t \<and> minuteOfHour z t < 60"
proof -
  define r where "r = localMs z t mod 3600000"
  have "0 \<le> r" "r < 3600000" by (simp_all add: r_def)
  then have "0 \<le> r div 60000 \<and> r div 60000 < 60" by arith
  then show ?thesis by (simp add: minuteOfHour_def MS_PER_MINUTE_def MS_PER_HOUR_def r_def)
qed

lemma split_hours: "(r::int) div 3600000 * 60 + (r mod 3600000) div 60000 = r div 60000"
proof -
  have "r div 60000 = (r div 3600000 * 3600000 + r mod 3600000) div 60000" by simp
  also have "\<dots> = (r mod 3600000 + 60000 * (r div 3600000 * 60)) div 60000"
    by (simp add: algebra_simps)
  also have "\<dots> = (r mod 3600000) div 60000 + r div 3600000 * 60"
    by (simp only: div_mult_self2)
  finally show ?thesis by simp
qed

lemma hour_minute_of_day: "hourOfDay z t * 60 + minuteOfHour z t = minuteOfDay z t"
proof -
  define r where "r = localMs z t mod 86400000"
  have "localMs z t mod 3600000 = r mod 3600000"
    unfolding r_def by (simp add: mod_mod_cancel)
  then show ?thesis
    using split_hours [of r]
    by (simp add: hourOfDay_def minuteOfHour_def minuteOfDay_def MS_PER_MINUTE_def
        MS_PER_HOUR_def MS_PER_DAY_def r_def)
qed

lemma weekdayIndex_range: "0 \<le> weekdayIndex z t \<and> weekdayIndex z t < 7"
  by (simp add: weekdayIndex_def)

lemma weekday_mon_wed:
  assumes "0 \<le> i" and "i < 7"
  shows "startsWith (toLowerCase (weekdayShort i)) ''mon'' = (i = 1)"
    and "startsWith (toLowerCase (weekdayShort i)) ''wed'' = (i = 3)"
proof -
  from assms have "i \<in> {0, 1, 2, 3, 4, 5, 6}" by auto
  then show "startsWith (toLowerCase (weekdayShort i)) ''mon'' = (i = 1)"
    and "startsWith (toLowerCase (weekdayShort i)) ''wed'' = (i = 3)"
    by (auto simp: startsWith_def toLowerCase_def weekdayShort_def lowerChar_def)
qed

lemma parts_hour: "parseInt (hour (formatToParts z t)) = hourOfDay z t"
  using hourOfDay_range [of z t]
  by (simp add: formatToParts_def parseInt_pad2_int split: prod.splits)

lemma parts_minute: "parseInt (minute (formatToParts z t)) = minuteOfHour z t"
  using minuteOfHour_range [of z t]
  by (simp add: formatToParts_def parseInt_pad2_int split: prod.splits)

lemma parts_weekday: "weekday (formatToParts z t) = weekdayShort (weekdayIndex z t)"
  by (simp add: formatToParts_def split: prod.splits)

lemma minutesOfDayET_eq: "minutesOfDayET TZ d = minuteOfDay TZ d"
  by (simp add: minutesOfDayET_def etParts_def parts_hour parts_minute hour_minute_of_day
      Let_def)

lemma etDateKey_cong: "dayNumber TZ a = dayNumber TZ b \<Longrightarrow> etDateKey TZ a = etDateKey TZ b"
  by (simp add: etDateKey_def etParts_def formatToParts_def Let_def split: prod.splits)

lemma isAspOpen_char:
  "isAspOpen TZ t =
     ((weekdayIndex TZ t = 1 \<or> weekdayIndex TZ t = 3)
       \<and> 1170 \<le> minuteOfDay TZ t \<and> minuteOfDay TZ t < 1290)"
  using weekdayIndex_range [of TZ t]
  by (simp add: isAspOpen_def parts_hour parts_minute parts_weekday weekday_mon_wed
      hour_minute_of_day Let_def)

section \<open>Facts about the accrual of a night\<close>

lemma overlap_card: "overlapMinutesET a b ASP_START_MIN ASP_END_MIN = windowOverlap_spec a b"
proof -
  have "{a ..< b} \<inter> {1170 ..< 1290} = {max a 1170 ..< min b 1290}" by auto
  then have "windowOverlap_spec a b = int (nat (min b 1290 - max a 1170))"
    by (simp only: windowOverlap_spec_def card_atLeastLessThan_int)
  also have "\<dots> = max 0 (min b 1290 - max a 1170)" by (simp add: max_def)
  finally show ?thesis
    by (simp add: overlapMinutesET_def ASP_START_MIN_def ASP_END_MIN_def Let_def)
qed

lemma overlap_nonneg: "0 \<le> overlapMinutesET a b c d"
  by (simp add: overlapMinutesET_def Let_def)

lemma tonightLoop_sum:
  "tonightLoop TZ k now ss acc =
     acc + (\<Sum>s \<leftarrow> filter (\<lambda>s. etDateKey TZ (sign_in s) = k) ss. seg TZ now s)"
  by (induction ss arbitrary: acc) (simp_all add: Let_def seg_def)

lemma minutesTonightET_sum:
  "minutesTonightET TZ ss now =
     min (\<Sum>s \<leftarrow> filter (\<lambda>s. etDateKey TZ (sign_in s) = etDateKey TZ now) ss. seg TZ now s) 120"
  by (simp add: minutesTonightET_def tonightLoop_sum TWO_HOURS_MIN_def Let_def)

lemma sum_list_seg_nonneg: "0 \<le> (\<Sum>s \<leftarrow> ss. seg TZ now s)"
  by (induction ss) (simp_all add: seg_def overlap_nonneg)


section \<open>The date key determines the calendar date\<close>

lemma toString_digits: "\<forall>c \<in> set (toString n). is_digit c"
proof (induction n rule: toString.induct)
  case (1 n)
  show ?case
  proof (cases "n < 10")
    case True
    then show ?thesis by (simp add: toString.simps [of n] digit_char_props)
  next
    case False
    with 1 have "\<forall>c \<in> set (toString (n div 10)). is_digit c" by simp
    moreover have "is_digit (digit_char (n mod 10))" by (simp add: digit_char_props)
    ultimately show ?thesis using False by (simp add: toString.simps [of n])
  qed
qed

lemma value_toString: "foldl (\<lambda>a c. 10 * a + digit_value c) 0 (toString n) = int n"
proof (induction n rule: toString.induct)
  case (1 n)
  show ?case
  proof (cases "n < 10")
    case True
    then show ?thesis by (simp add: toString.simps [of n] digit_char_props)
  next
    case False
    with 1 have "foldl (\<lambda>a c. 10 * a + digit_value c) 0 (toString (n div 10)) = int (n div 10)"
      by simp
    moreover have "digit_value (digit_char (n mod 10)) = int (n mod 10)"
      by (simp add: digit_char_props)
    ultimately have "foldl (\<lambda>a c. 10 * a + digit_value c) 0 (toString n)
        = 10 * int (n div 10) + int (n mod 10)"
      using False by (simp add: toString.simps [of n])
    also have "\<dots> = int (10 * (n div 10) + n mod 10)"
      by (simp only: of_nat_add of_nat_mult of_nat_numeral)
    also have "\<dots> = int n" by simp
    finally show ?thesis .
  qed
qed

lemma value_zeros: "foldl (\<lambda>a c. 10 * a + digit_value c) 0 (replicate k (CHR ''0'')) = 0"
  by (induction k) (simp_all add: digit_value_def)

lemma is_digit_zero: "is_digit (CHR ''0'')"
  by (simp add: is_digit_def)

lemma pad2_digits: "\<forall>c \<in> set (pad2 n). is_digit c"
proof
  fix c
  assume "c \<in> set (pad2 n)"
  then have "c = CHR ''0'' \<or> c \<in> set (toString n)"
    by (auto simp: pad2_def Let_def)
  then show "is_digit c"
    using toString_digits [of n] is_digit_zero by blast
qed

lemma value_pad2: "foldl (\<lambda>a c. 10 * a + digit_value c) 0 (pad2 n) = int n"
  by (simp add: pad2_def Let_def value_zeros value_toString)

lemma not_digit_dash: "\<not> is_digit (CHR ''-'')"
  by (simp add: is_digit_def)

lemma leading_digits:
  assumes "\<forall>c \<in> set ds. is_digit c"
  shows "takeWhile is_digit (ds @ CHR ''-'' # rest) = ds"
    and "dropWhile is_digit (ds @ CHR ''-'' # rest) = CHR ''-'' # rest"
proof -
  have "takeWhile is_digit (ds @ CHR ''-'' # rest) = ds @ takeWhile is_digit (CHR ''-'' # rest)"
    using assms by (intro takeWhile_append2) simp
  then show "takeWhile is_digit (ds @ CHR ''-'' # rest) = ds"
    by (simp add: not_digit_dash)
  have "dropWhile is_digit (ds @ CHR ''-'' # rest) = dropWhile is_digit (CHR ''-'' # rest)"
    using assms by (intro dropWhile_append2) simp
  then show "dropWhile is_digit (ds @ CHR ''-'' # rest) = CHR ''-'' # rest"
    by (simp add: not_digit_dash)
qed

lemma takeWhile_all: "\<forall>c \<in> set ds. is_digit c \<Longrightarrow> takeWhile is_digit ds = ds"
  by simp

lemma keyFields_key:
  "keyFields (toString y @ ''-'' @ pad2 m @ ''-'' @ pad2 d) = (int y, int m, int d)"
proof -
  let ?md = "pad2 m @ CHR ''-'' # pad2 d"
  let ?k = "toString y @ CHR ''-'' # ?md"
  have t1: "takeWhile is_digit ?k = toString y" and d1: "dropWhile is_digit ?k = CHR ''-'' # ?md"
    using toString_digits [of y] by (rule leading_digits)+
  have t2: "takeWhile is_digit ?md = pad2 m" and d2: "dropWhile is_digit ?md = CHR ''-'' # pad2 d"
    using pad2_digits [of m] by (rule leading_digits)+
  have t3: "takeWhile is_digit (pad2 d) = pad2 d"
    using pad2_digits [of d] by (rule takeWhile_all)
  have "keyFields ?k = (int y, int m, int d)"
    unfolding keyFields_def parseInt_def d1 d2 list.sel t1 t2 t3 value_toString value_pad2 ..
  then show ?thesis by simp
qed

lemma parseInt_toString: "parseInt (toString n) = int n"
  by (simp add: parseInt_def takeWhile_all toString_digits value_toString)

lemma parseInt_pad2_all: "parseInt (pad2 n) = int n"
  by (simp add: parseInt_def takeWhile_all pad2_digits value_pad2)

lemma yoe_nonneg:
  assumes "0 \<le> (doe::int)"
  shows "0 \<le> (doe - doe div 1460 + doe div 36524 - doe div 146096) div 365"
proof -
  have "0 \<le> doe - doe div 1460 + doe div 36524 - doe div 146096" using assms by arith
  then show ?thesis by (simp add: pos_imp_zdiv_nonneg_iff)
qed

lemma doy_lower:
  fixes doe :: int
  assumes "0 \<le> doe"
  defines "yoe \<equiv> (doe - doe div 1460 + doe div 36524 - doe div 146096) div 365"
  shows "- 61 \<le> doe - (365 * yoe + yoe div 4 - yoe div 100)"
proof -
  define N where "N = doe - doe div 1460 + doe div 36524 - doe div 146096"
  have y: "yoe = N div 365" by (simp add: yoe_def N_def)
  have y0: "0 \<le> yoe" unfolding yoe_def using assms(1) by (rule yoe_nonneg)
  have a: "365 * yoe \<le> N" unfolding y by arith
  have b: "4 * (yoe div 4) \<le> yoe" by arith
  have c: "0 \<le> yoe div 100" using y0 by arith
  have d: "doe < 1460 * (doe div 1460) + 1460" by arith
  have e: "36524 * (doe div 36524) \<le> doe" by arith
  have f: "0 \<le> doe div 146096" using assms(1) by arith
  show ?thesis using a b c d e f y0 assms(1) unfolding N_def by arith
qed

lemma civil_of_doy_nonneg:
  assumes "0 \<le> y" and "- 61 \<le> doy" and "civil_of_doy y doy = (y', m, d)"
  shows "0 \<le> y' \<and> 0 \<le> m \<and> 0 \<le> d"
proof -
  define mp where "mp = (5 * doy + 2) div 153"
  from assms(2) have mp: "- 2 \<le> mp" unfolding mp_def by arith
  have "153 * mp \<le> 5 * doy + 2" unfolding mp_def by arith
  then have day: "(153 * mp + 2) div 5 \<le> doy" by arith
  have "civil_of_doy y doy
      = (if (if mp < 10 then mp + 3 else mp - 9) \<le> 2 then y + 1 else y,
         if mp < 10 then mp + 3 else mp - 9,
         doy - (153 * mp + 2) div 5 + 1)"
    by (simp only: civil_of_doy_def civil_of_mp_def civil_of_month_def mp_def)
  with assms(3) have y': "y' = (if (if mp < 10 then mp + 3 else mp - 9) \<le> 2 then y + 1 else y)"
    and m: "m = (if mp < 10 then mp + 3 else mp - 9)"
    and d: "d = doy - (153 * mp + 2) div 5 + 1"
    by auto
  from y' assms(1) have "0 \<le> y'" by (simp split: if_splits)
  moreover from m mp have "0 \<le> m" by (simp split: if_splits)
  moreover from d day have "0 \<le> d" by simp
  ultimately show ?thesis by simp
qed

lemma civil_from_days_nonneg:
  assumes "0 \<le> n" and "civil_from_days n = (y, m, d)"
  shows "0 \<le> y \<and> 0 \<le> m \<and> 0 \<le> d"
proof -
  define era where "era = (n + 719468) div 146097"
  define doe where "doe = (n + 719468) mod 146097"
  define yoe where "yoe = (doe - doe div 1460 + doe div 36524 - doe div 146096) div 365"
  have doe: "0 \<le> doe" by (simp add: doe_def)
  from assms(1) have era: "0 \<le> era" by (simp add: era_def pos_imp_zdiv_nonneg_iff)
  have yoe: "0 \<le> yoe" unfolding yoe_def using doe by (rule yoe_nonneg)
  have doy: "- 61 \<le> doe - (365 * yoe + yoe div 4 - yoe div 100)"
    unfolding yoe_def using doe by (rule doy_lower)
  from era yoe have y: "0 \<le> yoe + era * 400" by simp
  from assms(2) have "civil_of_doy (yoe + era * 400) (doe - (365 * yoe + yoe div 4 - yoe div 100))
      = (y, m, d)"
    by (simp only: civil_from_days_def civil_of_era_def civil_of_yoe_def era_def doe_def yoe_def)
  with y doy show ?thesis by (rule civil_of_doy_nonneg)
qed

lemma keyFields_etDateKey:
  assumes "0 \<le> dayNumber TZ t"
  shows "keyFields (etDateKey TZ t) = calendarDate TZ t"
proof -
  obtain y m d where c: "civil_from_days (dayNumber TZ t) = (y, m, d)"
    by (cases "civil_from_days (dayNumber TZ t)") auto
  with assms have r: "0 \<le> y" "0 \<le> m" "0 \<le> d"
    using civil_from_days_nonneg by blast+
  then have "etDateKey TZ t = toString (nat y) @ ''-'' @ pad2 (nat m) @ ''-'' @ pad2 (nat d)"
    by (simp add: etDateKey_def etParts_def formatToParts_def c showYear_def Let_def
        parseInt_toString parseInt_pad2_all)
  then have "keyFields (etDateKey TZ t) = (int (nat y), int (nat m), int (nat d))"
    by (simp only: keyFields_key)
  with r show ?thesis by (simp add: calendarDate_def c)
qed

lemma calendarDate_etDateKey:
  "calendarDate TZ a = calendarDate TZ b \<Longrightarrow> etDateKey TZ a = etDateKey TZ b"
  by (simp add: calendarDate_def etDateKey_def etParts_def formatToParts_def Let_def
      split: prod.splits)

lemma etDateKey_eq_iff:
  assumes "0 \<le> dayNumber TZ a" and "0 \<le> dayNumber TZ b"
  shows "(etDateKey TZ a = etDateKey TZ b) = (calendarDate TZ a = calendarDate TZ b)"
proof
  assume "etDateKey TZ a = etDateKey TZ b"
  then have "keyFields (etDateKey TZ a) = keyFields (etDateKey TZ b)" by simp
  with assms show "calendarDate TZ a = calendarDate TZ b" by (simp add: keyFields_etDateKey)
next
  assume "calendarDate TZ a = calendarDate TZ b"
  then show "etDateKey TZ a = etDateKey TZ b" by (rule calendarDate_etDateKey)
qed

text \<open>
  C6. For every instant, \<open>isAspOpen\<close> holds exactly if the weekday of the wall clock of the
  zone is Monday or Wednesday and the minute of the day lies in the half-open interval from
  1170 to 1290; so an instant at minute 1170 (19:30) of such a day is open and one at minute
  1290 (21:30) is closed.
\<close>

theorem isAspOpen_window:
  "isAspOpen TZ t =
     ((weekdayIndex TZ t = 1 \<or> weekdayIndex TZ t = 3)
       \<and> 1170 \<le> minuteOfDay TZ t \<and> minuteOfDay TZ t < 1290)"
proof -
  let ?p = "formatToParts TZ t"
  have range: "0 \<le> weekdayIndex TZ t" "weekdayIndex TZ t < 7"
    using weekdayIndex_range [of TZ t] by simp_all
  have mon: "startsWith (toLowerCase (weekday ?p)) ''mon'' = (weekdayIndex TZ t = 1)"
    using range by (simp add: parts_weekday weekday_mon_wed)
  have wed: "startsWith (toLowerCase (weekday ?p)) ''wed'' = (weekdayIndex TZ t = 3)"
    using range by (simp add: parts_weekday weekday_mon_wed)
  have minutes: "parseInt (hour ?p) * 60 + parseInt (minute ?p) = minuteOfDay TZ t"
    by (simp add: parts_hour parts_minute hour_minute_of_day)
  show ?thesis
    unfolding isAspOpen_def Let_def mon wed minutes by simp
qed

text \<open>
  Monday 2025-01-06 in New York, on standard time: 19:30:00.000 is open, 19:29:59.999 and
  21:30:00.000 are closed, and so is 19:30 of the Tuesday. Monday 2025-07-14, on daylight
  time: 19:30:00.000 is open.
\<close>

theorem isAspOpen_window_witness:
  "isAspOpen America_New_York 1736209800000
   \<and> \<not> isAspOpen America_New_York 1736209799999
   \<and> \<not> isAspOpen America_New_York 1736217000000
   \<and> \<not> isAspOpen America_New_York 1736296200000
   \<and> isAspOpen America_New_York 1752535800000"
proof -
  have "weekdayIndex America_New_York 1736209800000 = 1"
    and "minuteOfDay America_New_York 1736209800000 = 1170"
    and "minuteOfDay America_New_York 1736209799999 = 1169"
    and "minuteOfDay America_New_York 1736217000000 = 1290"
    and "weekdayIndex America_New_York 1736296200000 = 2"
    and "weekdayIndex America_New_York 1752535800000 = 1"
    and "minuteOfDay America_New_York 1752535800000 = 1170"
    by (simp_all add: time_defs)
  then show ?thesis
    using isAspOpen_window [of America_New_York 1736209800000]
      isAspOpen_window [of America_New_York 1736209799999]
      isAspOpen_window [of America_New_York 1736217000000]
      isAspOpen_window [of America_New_York 1736296200000]
      isAspOpen_window [of America_New_York 1752535800000]
    by simp
qed

text \<open>
  C1, as amended. For every list of sessions and every instant \<open>now\<close>, none of these
  instants before 1970 on the wall clock of the zone, \<open>minutesTonightET\<close> is the sum, over
  exactly the sessions whose sign-in falls on the calendar date of \<open>now\<close> in the zone, of
  the overlap of two intervals of minutes of the day: the one from the minute of the day of
  the sign-in up to the minute of the day of the sign-out (of \<open>now\<close> where the session has
  no sign-out), each instant reduced to the whole minute it falls in, and the window from
  minute 1170 up to minute 1290; that sum clamped to the range from 0 to 120.
\<close>

theorem minutesTonightET_minute_overlap:
  assumes "0 \<le> dayNumber TZ now"
    and "\<forall>s \<in> set sessions. 0 \<le> dayNumber TZ (sign_in s)"
  shows "minutesTonightET TZ sessions now = accruedTonight_byMinute_spec TZ sessions now"
proof -
  let ?key = "filter (\<lambda>s. etDateKey TZ (sign_in s) = etDateKey TZ now) sessions"
  let ?date = "filter (\<lambda>s. calendarDate TZ (sign_in s) = calendarDate TZ now) sessions"
  have today: "?key = ?date"
  proof (rule filter_cong [OF refl])
    fix s
    assume "s \<in> set sessions"
    with assms(2) have "0 \<le> dayNumber TZ (sign_in s)" by simp
    then show "(etDateKey TZ (sign_in s) = etDateKey TZ now)
        = (calendarDate TZ (sign_in s) = calendarDate TZ now)"
      using assms(1) by (rule etDateKey_eq_iff)
  qed
  have seg: "seg TZ now s =
      windowOverlap_spec (minuteOfDay TZ (sign_in s))
        (minuteOfDay TZ (case sign_out s of None \<Rightarrow> now | Some e \<Rightarrow> e))" for s
    by (simp add: seg_def overlap_card minutesOfDayET_eq endOrNow_def)
  have "0 \<le> (\<Sum>s \<leftarrow> ?date. seg TZ now s)" by (rule sum_list_seg_nonneg)
  then have "clamp 0 120 (\<Sum>s \<leftarrow> ?date. seg TZ now s)
      = min (\<Sum>s \<leftarrow> ?date. seg TZ now s) 120"
    by (simp add: clamp_def)
  then show ?thesis
    by (simp add: minutesTonightET_sum today accruedTonight_byMinute_spec_def seg)
qed

text \<open>
  At 20:30 of Monday 2025-01-06 in New York, with a session of the Sunday before, from
  19:30 to 20:30, a session from 19:45:59 to 20:00:01 of the Monday and a session open
  since 20:15 of the Monday: the Sunday session is left out, and the other two accrue the
  minutes from 1185 to 1200 and from 1215 to 1230, 30 in all.
\<close>

theorem minutesTonightET_minute_overlap_witness:
  "0 \<le> dayNumber America_New_York (monday 20 30 0)
   \<and> 0 \<le> dayNumber America_New_York 1736123400000
   \<and> 0 \<le> dayNumber America_New_York (monday 19 45 59)
   \<and> 0 \<le> dayNumber America_New_York (monday 20 15 0)
   \<and> minutesTonightET America_New_York
       [sessionOfPat ''s0'' 1736123400000 (Some 1736127000000),
        sessionOfPat ''s1'' (monday 19 45 59) (Some (monday 20 0 1)),
        sessionOfPat ''s2'' (monday 20 15 0) None] (monday 20 30 0) = 30"
proof -
  let ?ss = "[sessionOfPat ''s0'' 1736123400000 (Some 1736127000000),
        sessionOfPat ''s1'' (monday 19 45 59) (Some (monday 20 0 1)),
        sessionOfPat ''s2'' (monday 20 15 0) None]"
  have d: "dayNumber America_New_York (monday 20 30 0) = 20094"
    "dayNumber America_New_York 1736123400000 = 20093"
    "dayNumber America_New_York (monday 19 45 59) = 20094"
    "dayNumber America_New_York (monday 20 15 0) = 20094"
    by (simp_all add: monday_def time_defs)
  have c: "calendarDate America_New_York (monday 20 30 0) = (2025, 1, 6)"
    "calendarDate America_New_York 1736123400000 = (2025, 1, 5)"
    "calendarDate America_New_York (monday 19 45 59) = (2025, 1, 6)"
    "calendarDate America_New_York (monday 20 15 0) = (2025, 1, 6)"
    by (simp_all add: calendarDate_def d) (simp_all add: time_defs)
  have m: "minuteOfDay America_New_York (monday 19 45 59) = 1185"
    "minuteOfDay America_New_York (monday 20 0 1) = 1200"
    "minuteOfDay America_New_York (monday 20 15 0) = 1215"
    "minuteOfDay America_New_York (monday 20 30 0) = 1230"
    by (simp_all add: monday_def time_defs)
  have w: "windowOverlap_spec 1185 1200 = 15" "windowOverlap_spec 1215 1230 = 15"
    by (simp_all add: overlap_card [symmetric] overlapMinutesET_def ASP_START_MIN_def
        ASP_END_MIN_def)
  have spec: "accruedTonight_byMinute_spec America_New_York ?ss (monday 20 30 0) = 30"
    by (simp add: accruedTonight_byMinute_spec_def sessionOfPat_def c m w clamp_def)
  have h: "\<forall>s \<in> set ?ss. 0 \<le> dayNumber America_New_York (sign_in s)"
    by (simp add: sessionOfPat_def d)
  have "0 \<le> dayNumber America_New_York (monday 20 30 0)" by (simp add: d)
  from minutesTonightET_minute_overlap [OF this h] spec d show ?thesis
    by simp
qed

text \<open>
  C1 as stated fails. Pat's session from 19:45:59 to 20:00:01 of the Monday, alone, at
  20:30: the interval from the sign-in to the sign-out lasts 14 minutes and 2 seconds, all
  of it in the window, an overlap of 14 minutes; \<open>minutesTonightET\<close> takes the minutes of
  the day 1185 and 1200 and accrues 15.
\<close>

theorem minutesTonightET_counterexample:
  "accruedTonight_spec America_New_York
     [sessionOfPat ''s1'' (monday 19 45 59) (Some (monday 20 0 1))] (monday 20 30 0) = 14
   \<and> minutesTonightET America_New_York
     [sessionOfPat ''s1'' (monday 19 45 59) (Some (monday 20 0 1))] (monday 20 30 0) = 15"
proof -
  let ?s = "sessionOfPat ''s1'' (monday 19 45 59) (Some (monday 20 0 1))"
  have z: "America_New_York (monday 19 45 59) = - 18000000"
    "America_New_York (monday 20 0 1) = - 18000000"
    by (simp_all add: monday_def time_defs)
  have d: "dayNumber America_New_York (monday 20 30 0) = 20094"
    "dayNumber America_New_York (monday 19 45 59) = 20094"
    by (simp_all add: monday_def time_defs)
  have c: "calendarDate America_New_York (monday 19 45 59)
      = calendarDate America_New_York (monday 20 30 0)"
    by (simp add: calendarDate_def d)
  have m: "minutesOfDayET America_New_York (monday 19 45 59) = 1185"
    "minutesOfDayET America_New_York (monday 20 0 1) = 1200"
    by (simp_all add: minutesOfDayET_eq monday_def time_defs)
  have k: "etDateKey America_New_York (monday 19 45 59)
      = etDateKey America_New_York (monday 20 30 0)"
    by (rule etDateKey_cong) (simp add: d)
  have "intervalOverlap_spec America_New_York (monday 19 45 59) (monday 20 0 1) = 14"
    by (simp add: intervalOverlap_spec_def d localMs_def z Let_def)
      (simp add: monday_def MS_PER_DAY_def MS_PER_MINUTE_def)
  then have "accruedTonight_spec America_New_York [?s] (monday 20 30 0) = 14"
    by (simp add: accruedTonight_spec_def sessionOfPat_def c clamp_def)
  moreover have "minutesTonightET America_New_York [?s] (monday 20 30 0) = 15"
    by (simp add: minutesTonightET_sum seg_def endOrNow_def sessionOfPat_def m k
        overlapMinutesET_def ASP_START_MIN_def ASP_END_MIN_def)
  ultimately show ?thesis by simp
qed

text \<open>
  C10. A session whose sign-out minute of the day (that of \<open>now\<close> while it is open) is not
  after its sign-in minute of the day, as when it crosses midnight, is credited no minute
  by \<open>minutesTonightET\<close>: alone it yields 0, and in any list of sessions it adds nothing.
\<close>

theorem inverted_session_no_credit:
  assumes "minutesOfDayET TZ (endOrNow s now) \<le> minutesOfDayET TZ (sign_in s)"
  shows "minutesTonightET TZ [s] now = 0
    \<and> minutesTonightET TZ (xs @ s # ys) now = minutesTonightET TZ (xs @ ys) now"
proof -
  from assms have "seg TZ now s = 0"
    by (simp add: seg_def overlapMinutesET_def Let_def)
  then show ?thesis by (simp add: minutesTonightET_sum)
qed

text \<open>
  A session from Monday 20:00 to Tuesday 00:30, at 23:00 of the Monday, next to a session
  from 19:30 to 20:00 of that Monday.
\<close>

theorem inverted_session_no_credit_witness:
  "minutesOfDayET America_New_York 1736227800000 \<le> minutesOfDayET America_New_York 1736211600000
   \<and> minutesTonightET America_New_York
       [\<lparr>s_id = ''s2'', cadet_id = ''c1'', sign_in = 1736211600000,
         sign_out = Some 1736227800000, voided = False\<rparr>] 1736222400000 = 0
   \<and> minutesTonightET America_New_York
       [\<lparr>s_id = ''s1'', cadet_id = ''c1'', sign_in = 1736209800000,
         sign_out = Some 1736211600000, voided = False\<rparr>,
        \<lparr>s_id = ''s2'', cadet_id = ''c1'', sign_in = 1736211600000,
         sign_out = Some 1736227800000, voided = False\<rparr>] 1736222400000 = 30"
proof -
  let ?s1 = "\<lparr>s_id = ''s1'', cadet_id = ''c1'', sign_in = 1736209800000,
         sign_out = Some 1736211600000, voided = False\<rparr>"
  let ?s2 = "\<lparr>s_id = ''s2'', cadet_id = ''c1'', sign_in = 1736211600000,
         sign_out = Some 1736227800000, voided = False\<rparr>"
  have m: "minutesOfDayET America_New_York 1736227800000 = 30"
    "minutesOfDayET America_New_York 1736211600000 = 1200"
    "minutesOfDayET America_New_York 1736209800000 = 1170"
    by (simp_all add: minutesOfDayET_eq time_defs)
  have k: "etDateKey America_New_York 1736209800000 = etDateKey America_New_York 1736222400000"
    by (rule etDateKey_cong) (simp add: time_defs)
  have h: "minutesOfDayET America_New_York (endOrNow ?s2 1736222400000)
      \<le> minutesOfDayET America_New_York (sign_in ?s2)"
    by (simp add: endOrNow_def m)
  have v: "minutesTonightET America_New_York ([?s1] @ []) 1736222400000 = 30"
    by (simp add: minutesTonightET_sum seg_def endOrNow_def m k overlapMinutesET_def
        ASP_START_MIN_def ASP_END_MIN_def)
  from inverted_session_no_credit [OF h, of "[?s1]" "[]"] v m show ?thesis
    by simp
qed

section \<open>Facts about signing in\<close>

lemma sum_list_sort_key: "(\<Sum>x \<leftarrow> sort_key k xs. f x) = (\<Sum>x \<leftarrow> xs. (f x :: int))"
proof -
  have "mset (map f (sort_key k xs)) = mset (map f xs)" by simp
  then have "sum_mset (mset (map f (sort_key k xs))) = sum_mset (mset (map f xs))"
    by (rule arg_cong)
  then show ?thesis by (simp only: sum_mset_sum_list)
qed

lemma minutesTonight_recent:
  assumes "\<forall>s \<in> set ss. cadet_id s = i \<and> \<not> voided s
             \<and> etDateKey TZ (sign_in s) = etDateKey TZ now \<longrightarrow> since \<le> sign_in s"
  shows "minutesTonightET TZ (recentSessions since i ss) now
       = minutesTonightET TZ (filter (\<lambda>s. cadet_id s = i \<and> \<not> voided s) ss) now"
proof -
  let ?today = "\<lambda>s. etDateKey TZ (sign_in s) = etDateKey TZ now"
  have "filter ?today (filter (\<lambda>s. cadet_id s = i \<and> \<not> voided s \<and> since \<le> sign_in s) ss)
      = filter ?today (filter (\<lambda>s. cadet_id s = i \<and> \<not> voided s) ss)"
    using assms by (auto intro: filter_cong)
  then show ?thesis
    by (simp add: minutesTonightET_sum recentSessions_def filter_sort sum_list_sort_key)
qed

lemma handleSignIn_valid:
  assumes "name st \<noteq> []" and "klass st = Some k" and "isAspOpen TZ (now_check e)"
  shows "handleSignIn TZ ilike True e st = signInRemote TZ ilike e st (formCadet e st k)"
  using assms by (simp add: handleSignIn_def)

text \<open>
  C2, as amended. With the remote store configured, a name and a class entered, the window
  open at the instant of the call, the participant record saved and the query for the
  recent sessions answered: if the participant has no open session and the non-void
  sessions of the participant accrue at least 120 minutes on the date of \<open>now\<close> (each of
  them that began on that date having begun within the 36 hours before the call, which is
  how far back the handler looks), then \<open>handleSignIn\<close> fails with \<open>CapExceededError\<close>
  and creates no session.
\<close>

theorem signIn_cap_enforced:
  fixes ilike :: "string \<Rightarrow> string \<Rightarrow> bool" and e :: signin_env and st :: state and k :: Klass
    and c :: cadet
  defines "c \<equiv> resolvedCadet ilike e st (formCadet e st k)"
  assumes valid: "name st \<noteq> []" "klass st = Some k"
    and window: "isAspOpen TZ (now_check e)"
    and store: "\<not> err_upsert e" "\<not> err_recent e"
    and noopen: "openSessionsOf (c_id c) (db_sessions st) = []"
    and within: "\<forall>s \<in> set (db_sessions st). cadet_id s = c_id c \<and> \<not> voided s
                  \<and> etDateKey TZ (sign_in s) = etDateKey TZ (now_guard e)
                \<longrightarrow> now_since e - 129600000 \<le> sign_in s"
    and accrued: "120 \<le> minutesTonightET TZ
                    (filter (\<lambda>s. cadet_id s = c_id c \<and> \<not> voided s) (db_sessions st))
                    (now_guard e)"
  shows "fst (handleSignIn TZ ilike True e st) = Inl CapExceededError
    \<and> db_sessions (snd (handleSignIn TZ ilike True e st)) = db_sessions st
    \<and> activeSession (snd (handleSignIn TZ ilike True e st)) = activeSession st"
proof -
  have recent: "120 \<le> minutesTonightET TZ
      (recentSessions (now_since e - 129600000) (c_id c) (db_sessions st)) (now_guard e)"
    using within accrued by (simp add: minutesTonight_recent)
  have "signInRemote TZ ilike e st (formCadet e st k)
      = (Inl CapExceededError,
         st\<lparr>db_cadets := upsertCadet c (db_cadets st), statusMsg := Some AlreadyTwoHours\<rparr>)"
    using store noopen recent
    by (simp add: signInRemote_def c_def [symmetric] maybeSingle_def TWO_HOURS_MIN_def Let_def)
  then show ?thesis
    using valid window by (simp add: handleSignIn_valid)
qed


section \<open>Evaluation at the concrete inputs\<close>

lemma etDateKey_day: "etDateKey TZ t = dateKey (dayNumber TZ t)"
  by (simp add: etDateKey_def etParts_def formatToParts_def dateKey_def Let_def
      split: prod.splits)

lemma monday_parts:
  "formatToParts America_New_York (monday 19 30 0)
     = \<lparr> weekday = ''Mon'', year = ''2025'', month = ''01'', day = ''06'', hour = ''19'',
         minute = ''30'' \<rparr>"
  by (simp add: formatToParts_def monday_def time_defs weekdayShort_def hourOfDay_def
      minuteOfHour_def showYear_def pad2_def toString.simps digit_char_def)

lemma monday_day:
    "dayNumber America_New_York (monday 19 0 0) = 20094"
    "dayNumber America_New_York (monday 19 30 0) = 20094"
    "dayNumber America_New_York (monday 19 35 0) = 20094"
    "dayNumber America_New_York (monday 19 35 50) = 20094"
    "dayNumber America_New_York (monday 19 40 0) = 20094"
    "dayNumber America_New_York (monday 20 0 0) = 20094"
    "dayNumber America_New_York (monday 20 5 0) = 20094"
    "dayNumber America_New_York (monday 20 5 10) = 20094"
    "dayNumber America_New_York (monday 20 10 0) = 20094"
    "dayNumber America_New_York (monday 20 40 0) = 20094"
    "dayNumber America_New_York (monday 20 45 0) = 20094"
    "dayNumber America_New_York (monday 20 50 0) = 20094"
    "dayNumber America_New_York (monday 21 0 0) = 20094"
    "dayNumber America_New_York (monday 21 30 0) = 20094"
    "dayNumber America_New_York (monday 21 40 0) = 20094"
    "dayNumber America_New_York (monday 22 0 0) = 20094"
  by (simp_all add: monday_def time_defs)

lemma monday_weekday:
    "weekdayIndex America_New_York (monday 19 0 0) = 1"
    "weekdayIndex America_New_York (monday 19 30 0) = 1"
    "weekdayIndex America_New_York (monday 19 35 0) = 1"
    "weekdayIndex America_New_York (monday 19 35 50) = 1"
    "weekdayIndex America_New_York (monday 19 40 0) = 1"
    "weekdayIndex America_New_York (monday 20 0 0) = 1"
    "weekdayIndex America_New_York (monday 20 5 0) = 1"
    "weekdayIndex America_New_York (monday 20 5 10) = 1"
    "weekdayIndex America_New_York (monday 20 10 0) = 1"
    "weekdayIndex America_New_York (monday 20 40 0) = 1"
    "weekdayIndex America_New_York (monday 20 45 0) = 1"
    "weekdayIndex America_New_York (monday 20 50 0) = 1"
    "weekdayIndex America_New_York (monday 21 0 0) = 1"
    "weekdayIndex America_New_York (monday 21 30 0) = 1"
    "weekdayIndex America_New_York (monday 21 40 0) = 1"
    "weekdayIndex America_New_York (monday 22 0 0) = 1"
  by (simp_all add: monday_def time_defs)

lemma monday_minute:
    "minuteOfDay America_New_York (monday 19 0 0) = 1140"
    "minuteOfDay America_New_York (monday 19 30 0) = 1170"
    "minuteOfDay America_New_York (monday 19 35 0) = 1175"
    "minuteOfDay America_New_York (monday 19 35 50) = 1175"
    "minuteOfDay America_New_York (monday 19 40 0) = 1180"
    "minuteOfDay America_New_York (monday 20 0 0) = 1200"
    "minuteOfDay America_New_York (monday 20 5 0) = 1205"
    "minuteOfDay America_New_York (monday 20 5 10) = 1205"
    "minuteOfDay America_New_York (monday 20 10 0) = 1210"
    "minuteOfDay America_New_York (monday 20 40 0) = 1240"
    "minuteOfDay America_New_York (monday 20 45 0) = 1245"
    "minuteOfDay America_New_York (monday 20 50 0) = 1250"
    "minuteOfDay America_New_York (monday 21 0 0) = 1260"
    "minuteOfDay America_New_York (monday 21 30 0) = 1290"
    "minuteOfDay America_New_York (monday 21 40 0) = 1300"
    "minuteOfDay America_New_York (monday 22 0 0) = 1320"
  by (simp_all add: monday_def time_defs)

lemmas clock = etDateKey_day minutesOfDayET_eq isAspOpen_char monday_day monday_weekday monday_minute

lemmas accrual =
  minutesTonightET_sum seg_def endOrNow_def overlapMinutesET_def ASP_START_MIN_def ASP_END_MIN_def

lemma normalizeName_pat: "normalizeName ''Pat Doe'' = ''Pat Doe''"
  by (simp add: normalizeName_def trim_def isSpace_def)

lemma resolved_pat:
  "\<not> err_exact e \<Longrightarrow> resolvedCadet ilike e (storeOfPat ss) (formCadet e (storeOfPat ss) K1C) = pat"
  by (simp add: resolvedCadet_def resolveCadetId_def formCadet_def storeOfPat_def pat_def
      normalizeName_pat maybeSingle_def)

text \<open>
  Two sessions of Pat that overlap, 19:30 to 20:40 and 19:40 to 20:45 (70 and 65 minutes of
  the window), and a call at 20:50 of the same Monday.
\<close>

theorem signIn_cap_enforced_witness:
  "name (storeOfPat [sessionOfPat ''s1'' (monday 19 30 0) (Some (monday 20 40 0)),
                     sessionOfPat ''s2'' (monday 19 40 0) (Some (monday 20 45 0))]) \<noteq> []
   \<and> isAspOpen America_New_York (now_check (callAt (monday 20 50 0)))
   \<and> 120 \<le> minutesTonightET America_New_York
        (filter (\<lambda>s. cadet_id s = c_id pat \<and> \<not> voided s)
           [sessionOfPat ''s1'' (monday 19 30 0) (Some (monday 20 40 0)),
            sessionOfPat ''s2'' (monday 19 40 0) (Some (monday 20 45 0))])
        (monday 20 50 0)
   \<and> fst (handleSignIn America_New_York ilikePlain True (callAt (monday 20 50 0))
        (storeOfPat [sessionOfPat ''s1'' (monday 19 30 0) (Some (monday 20 40 0)),
                     sessionOfPat ''s2'' (monday 19 40 0) (Some (monday 20 45 0))]))
      = Inl CapExceededError
   \<and> db_sessions (snd (handleSignIn America_New_York ilikePlain True (callAt (monday 20 50 0))
        (storeOfPat [sessionOfPat ''s1'' (monday 19 30 0) (Some (monday 20 40 0)),
                     sessionOfPat ''s2'' (monday 19 40 0) (Some (monday 20 45 0))])))
      = [sessionOfPat ''s1'' (monday 19 30 0) (Some (monday 20 40 0)),
         sessionOfPat ''s2'' (monday 19 40 0) (Some (monday 20 45 0))]"
proof -
  let ?ss = "[sessionOfPat ''s1'' (monday 19 30 0) (Some (monday 20 40 0)),
              sessionOfPat ''s2'' (monday 19 40 0) (Some (monday 20 45 0))]"
  let ?st = "storeOfPat ?ss"
  let ?e = "callAt (monday 20 50 0)"
  have c: "resolvedCadet ilikePlain ?e ?st (formCadet ?e ?st K1C) = pat"
    by (rule resolved_pat) (simp add: callAt_def)
  have valid: "name ?st \<noteq> []" "klass ?st = Some K1C"
    by (simp_all add: storeOfPat_def)
  have window: "isAspOpen America_New_York (now_check ?e)"
    by (simp add: callAt_def clock)
  have store: "\<not> err_upsert ?e" "\<not> err_recent ?e"
    by (simp_all add: callAt_def)
  have noopen: "openSessionsOf (c_id pat) (db_sessions ?st) = []"
    by (simp add: openSessionsOf_def storeOfPat_def sessionOfPat_def pat_def)
  have within: "\<forall>s \<in> set (db_sessions ?st). cadet_id s = c_id pat \<and> \<not> voided s
                  \<and> etDateKey America_New_York (sign_in s)
                      = etDateKey America_New_York (now_guard ?e)
                \<longrightarrow> now_since ?e - 129600000 \<le> sign_in s"
    by (simp add: storeOfPat_def sessionOfPat_def callAt_def monday_def)
  have accrued: "120 \<le> minutesTonightET America_New_York
      (filter (\<lambda>s. cadet_id s = c_id pat \<and> \<not> voided s) (db_sessions ?st)) (now_guard ?e)"
    by (simp add: accrual storeOfPat_def sessionOfPat_def callAt_def pat_def clock)
  from signIn_cap_enforced [of ?st K1C America_New_York ?e ilikePlain, unfolded c,
      OF valid window store noopen within accrued]
  show ?thesis
    using valid window accrued by (simp add: storeOfPat_def callAt_def)
qed

text \<open>
  C2 as stated fails. (a) Pat attended from 19:30 to 21:30, which accrues 120 minutes, has
  no open session and signs in at 21:40: the call fails with \<open>ClosedWindowError\<close>, not with
  \<open>CapExceededError\<close>. (b) With the two overlapping sessions above, accruing 135 minutes,
  and the query for the recent sessions answered by an error, the call at 20:50 creates a
  session.
\<close>

theorem signIn_cap_counterexample:
  "120 \<le> minutesTonightET America_New_York
       (filter (\<lambda>s. cadet_id s = ''c1'' \<and> \<not> voided s)
          [sessionOfPat ''s1'' (monday 19 30 0) (Some (monday 21 30 0))]) (monday 21 40 0)
   \<and> openSessionsOf ''c1'' [sessionOfPat ''s1'' (monday 19 30 0) (Some (monday 21 30 0))] = []
   \<and> fst (handleSignIn America_New_York ilikePlain True (callAt (monday 21 40 0))
        (storeOfPat [sessionOfPat ''s1'' (monday 19 30 0) (Some (monday 21 30 0))]))
      = Inl ClosedWindowError
   \<and> fst (handleSignIn America_New_York ilikePlain True
        ((callAt (monday 20 50 0))\<lparr>err_recent := True\<rparr>)
        (storeOfPat [sessionOfPat ''s1'' (monday 19 30 0) (Some (monday 20 40 0)),
                     sessionOfPat ''s2'' (monday 19 40 0) (Some (monday 20 45 0))]))
      = Inr (sessionOfPat ''s-new'' (monday 20 50 0) None)
   \<and> db_sessions (snd (handleSignIn America_New_York ilikePlain True
        ((callAt (monday 20 50 0))\<lparr>err_recent := True\<rparr>)
        (storeOfPat [sessionOfPat ''s1'' (monday 19 30 0) (Some (monday 20 40 0)),
                     sessionOfPat ''s2'' (monday 19 40 0) (Some (monday 20 45 0))])))
      = [sessionOfPat ''s1'' (monday 19 30 0) (Some (monday 20 40 0)),
         sessionOfPat ''s2'' (monday 19 40 0) (Some (monday 20 45 0)),
         sessionOfPat ''s-new'' (monday 20 50 0) None]"
proof -
  let ?ss = "[sessionOfPat ''s1'' (monday 19 30 0) (Some (monday 20 40 0)),
              sessionOfPat ''s2'' (monday 19 40 0) (Some (monday 20 45 0))]"
  let ?e = "(callAt (monday 20 50 0))\<lparr>err_recent := True\<rparr>"
  have accrued: "120 \<le> minutesTonightET America_New_York
       (filter (\<lambda>s. cadet_id s = ''c1'' \<and> \<not> voided s)
          [sessionOfPat ''s1'' (monday 19 30 0) (Some (monday 21 30 0))]) (monday 21 40 0)"
    by (simp add: accrual sessionOfPat_def clock)
  have noopen: "openSessionsOf ''c1'' [sessionOfPat ''s1'' (monday 19 30 0) (Some (monday 21 30 0))] = []"
    by (simp add: openSessionsOf_def sessionOfPat_def)
  have closed: "fst (handleSignIn America_New_York ilikePlain True (callAt (monday 21 40 0))
        (storeOfPat [sessionOfPat ''s1'' (monday 19 30 0) (Some (monday 21 30 0))]))
      = Inl ClosedWindowError"
    by (simp add: handleSignIn_def storeOfPat_def callAt_def clock)
  have c: "resolvedCadet ilikePlain ?e (storeOfPat ?ss) (formCadet ?e (storeOfPat ?ss) K1C) = pat"
    by (rule resolved_pat) (simp add: callAt_def)
  have "handleSignIn America_New_York ilikePlain True ?e (storeOfPat ?ss)
      = signInRemote America_New_York ilikePlain ?e (storeOfPat ?ss)
          (formCadet ?e (storeOfPat ?ss) K1C)"
    by (rule handleSignIn_valid) (simp_all add: storeOfPat_def callAt_def clock)
  then have created: "fst (handleSignIn America_New_York ilikePlain True ?e (storeOfPat ?ss))
      = Inr (sessionOfPat ''s-new'' (monday 20 50 0) None)
    \<and> db_sessions (snd (handleSignIn America_New_York ilikePlain True ?e (storeOfPat ?ss)))
      = ?ss @ [sessionOfPat ''s-new'' (monday 20 50 0) None]"
    by (simp add: signInRemote_def c Let_def)
      (simp add: storeOfPat_def callAt_def pat_def sessionOfPat_def openSessionsOf_def
        maybeSingle_def newSessionRow_def saveLocalCadet_def Let_def)
  from accrued noopen closed created show ?thesis by simp
qed



section \<open>Facts about the next window\<close>

lemma day_shift: "(x + k * 86400000) div 86400000 = x div 86400000 + (k::int)"
  by simp

lemma getDay_addDays:
  "getDay off (addDays now k) = ((now + off) div MS_PER_DAY + k + 4) mod 7"
proof -
  have "now + k * 86400000 + off = (now + off) + k * 86400000" by simp
  then have "(now + k * 86400000 + off) div 86400000 = (now + off) div 86400000 + k"
    by (simp only: day_shift)
  then show ?thesis
    by (simp add: getDay_def addDays_def MS_PER_DAY_def)
qed

lemma setHours_addDays:
  "setHours1930 off (addDays now k) = ((now + off) div MS_PER_DAY + k) * MS_PER_DAY + 70200000 - off"
proof -
  have "now + k * 86400000 + off = (now + off) + k * 86400000" by simp
  then have "(now + k * 86400000 + off) div 86400000 = (now + off) div 86400000 + k"
    by (simp only: day_shift)
  then show ?thesis
    by (simp add: setHours1930_def addDays_def MS_PER_DAY_def MS_PER_HOUR_def MS_PER_MINUTE_def)
qed

lemma candidate_later:
  assumes "1 \<le> k"
  shows "now < setHours1930 off (addDays now k)"
proof -
  define L where "L = now + off"
  have "L mod 86400000 < 86400000" by simp
  moreover have "L = L div 86400000 * 86400000 + L mod 86400000" by simp
  moreover have "86400000 \<le> k * 86400000" using assms by simp
  ultimately have "L < (L div 86400000 + k) * 86400000 + 70200000"
    by (simp add: algebra_simps)
  then show ?thesis
    by (simp add: setHours_addDays MS_PER_DAY_def L_def)
qed

lemma candidate_open_on_device_clock:
  assumes "getDay off (addDays now k) = 1 \<or> getDay off (addDays now k) = 3"
  shows "isAspOpen (\<lambda>t. off) (setHours1930 off (addDays now k))"
proof -
  define d where "d = (now + off) div 86400000 + k"
  have c: "setHours1930 off (addDays now k) + off = 70200000 + d * 86400000"
    by (simp add: setHours_addDays MS_PER_DAY_def d_def)
  have "(70200000 + d * 86400000) div 86400000 = d"
    and "(70200000 + d * 86400000) mod 86400000 = 70200000"
    by simp_all
  then have "weekdayIndex (\<lambda>t. off) (setHours1930 off (addDays now k)) = (d + 4) mod 7"
    and "minuteOfDay (\<lambda>t. off) (setHours1930 off (addDays now k)) = 1170"
    by (simp_all add: weekdayIndex_def minuteOfDay_def dayNumber_def localMs_def c
        MS_PER_DAY_def MS_PER_MINUTE_def)
  moreover have "getDay off (addDays now k) = (d + 4) mod 7"
    by (simp add: getDay_addDays MS_PER_DAY_def d_def)
  ultimately show ?thesis
    using assms by (simp add: isAspOpen_char)
qed

lemma a_monday_within_a_week: "\<exists>k::nat. 1 \<le> k \<and> k < 8 \<and> (d + int k + 4) mod 7 = 1"
proof -
  define m where "m = nat ((4 - d) mod 7)"
  have "m < 7" by (simp add: m_def nat_less_iff)
  have "int m = (4 - d) mod 7" by (simp add: m_def)
  moreover have "(d + (4 - d) mod 7 + 4) mod 7 = 1" by presburger
  ultimately have "(d + int m + 4) mod 7 = 1" by simp
  show ?thesis
  proof (cases "m = 0")
    case True
    with \<open>(d + int m + 4) mod 7 = 1\<close> have "(d + 4) mod 7 = 1" by simp
    then have "(d + int 7 + 4) mod 7 = 1" by presburger
    then show ?thesis by (intro exI [of _ 7]) simp
  next
    case False
    with \<open>m < 7\<close> \<open>(d + int m + 4) mod 7 = 1\<close> show ?thesis
      by (intro exI [of _ m]) simp
  qed
qed

lemma find_first:
  "x \<in> set xs \<Longrightarrow> P x \<Longrightarrow> \<exists>y. find P xs = Some y \<and> y \<in> set xs \<and> P y"
  by (induction xs) auto

lemma nextWindow_later_and_open_on_device_clock:
  "now < nextWindow off now \<and> isAspOpen (\<lambda>t. off) (nextWindow off now)"
proof -
  obtain k :: nat where k: "1 \<le> k" "k < 8" "((now + off) div MS_PER_DAY + int k + 4) mod 7 = 1"
    using a_monday_within_a_week by blast
  then have "getDay off (addDays now (int k)) = 1"
    by (simp add: getDay_addDays)
  with k have "setHours1930 off (addDays now (int k)) \<in> set (candidates off now)"
    by (auto simp: candidates_def)
  moreover from k have "now < setHours1930 off (addDays now (int k))"
    by (simp add: candidate_later)
  ultimately obtain y where y: "find (\<lambda>d. now < d) (candidates off now) = Some y"
    "y \<in> set (candidates off now)" "now < y"
    using find_first [of _ "candidates off now" "\<lambda>d. now < d"] by blast
  from y(2) have "isAspOpen (\<lambda>t. off) y"
    by (auto simp: candidates_def candidate_open_on_device_clock)
  with y show ?thesis
    by (simp add: nextWindow_def)
qed

section \<open>Facts about the stores\<close>



lemma foldl_add_sum: "foldl (\<lambda>acc x. acc + f x) a xs = a + (\<Sum>x \<leftarrow> xs. (f x :: int))"
  by (induction xs arbitrary: a) simp_all




text \<open>
  C7. The instant the memo \<open>nextWindow\<close> computes is, by the claim, later than \<open>now\<close> and
  an instant at which \<open>isAspOpen\<close> holds, 19:30 in New York. It is always later, and it is
  19:30 of a Monday or Wednesday on the clock of the device (the lemma above). On a device
  whose own zone is UTC, at 2025-01-06T12:00:00Z (Monday, 07:00 in New York), it is
  2025-01-06T19:30:00Z, which is 14:30 in New York, minute 870 of the day, where
  \<open>isAspOpen\<close> does not hold.
\<close>

theorem nextWindow_in_device_zone:
  "nextWindow 0 1736164800000 = 1736191800000
   \<and> minuteOfDay America_New_York 1736191800000 = 870
   \<and> \<not> isAspOpen America_New_York 1736191800000"
proof -
  have "candidates 0 1736164800000 = [1736191800000, 1736364600000, 1736796600000]"
    by (simp add: candidates_def getDay_def addDays_def setHours1930_def MS_PER_DAY_def
        MS_PER_HOUR_def MS_PER_MINUTE_def upt_rec [of _ "numeral _"])
  then have "nextWindow 0 1736164800000 = 1736191800000"
    by (simp add: nextWindow_def)
  moreover have "minuteOfDay America_New_York 1736191800000 = 870"
    by (simp add: time_defs)
  ultimately show ?thesis
    by (simp add: isAspOpen_char)
qed

text \<open>
  C3, as amended. The all-time total this code computes, in the local fallback of
  \<open>fetchLeaderboard\<close>, credits every session of the participant, voided or not, the whole
  minutes of its raw duration from the sign-in to the sign-out (or to \<open>now\<close>), never less
  than 0, whether or not they fall in an open window. So a non-void session that lies
  inside the window of its Monday or Wednesday contributes its full duration, which is its
  overlap with the window.
\<close>

theorem localTotal_raw_minutes:
  "localTotal now raw i
     = (\<Sum>s \<leftarrow> filter (\<lambda>s. cadet_id s = i) raw. max 0 ((endOrNow s now - sign_in s) div 60000))
   \<and> (\<not> voided s \<and> (weekdayIndex TZ (sign_in s) = 1 \<or> weekdayIndex TZ (sign_in s) = 3)
        \<and> dayNumber TZ (sign_in s) * MS_PER_DAY + 1170 * MS_PER_MINUTE \<le> localMs TZ (sign_in s)
        \<and> localMs TZ (sign_in s) \<le> localMs TZ (endOrNow s now)
        \<and> localMs TZ (endOrNow s now) \<le> dayNumber TZ (sign_in s) * MS_PER_DAY + 1290 * MS_PER_MINUTE
        \<and> TZ (sign_in s) = TZ (endOrNow s now)
      \<longrightarrow> localTotal now [s] (cadet_id s) = windowCredit_spec TZ now s
        \<and> localTotal now [s] (cadet_id s) = (endOrNow s now - sign_in s) div 60000)"
proof (intro conjI impI)
  show "localTotal now raw i
     = (\<Sum>s \<leftarrow> filter (\<lambda>s. cadet_id s = i) raw. max 0 ((endOrNow s now - sign_in s) div 60000))"
    by (simp add: localTotal_def foldl_add_sum msToMin_def)
next
  assume h: "\<not> voided s \<and> (weekdayIndex TZ (sign_in s) = 1 \<or> weekdayIndex TZ (sign_in s) = 3)
        \<and> dayNumber TZ (sign_in s) * MS_PER_DAY + 1170 * MS_PER_MINUTE \<le> localMs TZ (sign_in s)
        \<and> localMs TZ (sign_in s) \<le> localMs TZ (endOrNow s now)
        \<and> localMs TZ (endOrNow s now) \<le> dayNumber TZ (sign_in s) * MS_PER_DAY + 1290 * MS_PER_MINUTE
        \<and> TZ (sign_in s) = TZ (endOrNow s now)"
  define d where "d = endOrNow s now - sign_in s"
  from h have d: "localMs TZ (endOrNow s now) - localMs TZ (sign_in s) = d" "0 \<le> d"
    by (simp_all add: localMs_def d_def)
  from d(2) have nonneg: "0 \<le> d div 60000"
    by (simp add: pos_imp_zdiv_nonneg_iff)
  have total: "localTotal now [s] (cadet_id s) = d div 60000"
    using nonneg by (simp add: localTotal_def msToMin_def d_def)
  define A where "A = localMs TZ (sign_in s)"
  define B where "B = localMs TZ (endOrNow s now)"
  define W0 where "W0 = dayNumber TZ (sign_in s) * MS_PER_DAY + 1170 * MS_PER_MINUTE"
  define W1 where "W1 = dayNumber TZ (sign_in s) * MS_PER_DAY + 1290 * MS_PER_MINUTE"
  from h have order: "W0 \<le> A" "A \<le> B" "B \<le> W1"
    by (simp_all add: A_def B_def W0_def W1_def)
  then have "max 0 (min B W1 - max A W0) = B - A" by simp
  moreover from d have "B - A = d" by (simp add: A_def B_def)
  ultimately have "max 0 (min B W1 - max A W0) div MS_PER_MINUTE = d div 60000"
    by (simp add: MS_PER_MINUTE_def)
  with h have "windowCredit_spec TZ now s = d div 60000"
    by (simp add: windowCredit_spec_def Let_def A_def B_def W0_def W1_def)
  with total show "localTotal now [s] (cadet_id s) = windowCredit_spec TZ now s" by simp
  from total show "localTotal now [s] (cadet_id s) = (endOrNow s now - sign_in s) div 60000"
    by (simp add: d_def)
qed

text \<open>Pat's session from 19:35 to 20:05 of the Monday: 30 minutes, all in the window.\<close>

theorem localTotal_raw_minutes_witness:
  "weekdayIndex America_New_York (monday 19 35 0) = 1
   \<and> localTotal (monday 22 0 0) [sessionOfPat ''s1'' (monday 19 35 0) (Some (monday 20 5 0))] ''c1''
     = windowCredit_spec America_New_York (monday 22 0 0)
         (sessionOfPat ''s1'' (monday 19 35 0) (Some (monday 20 5 0)))
   \<and> localTotal (monday 22 0 0) [sessionOfPat ''s1'' (monday 19 35 0) (Some (monday 20 5 0))] ''c1''
     = 30"
proof -
  let ?s = "sessionOfPat ''s1'' (monday 19 35 0) (Some (monday 20 5 0))"
  have f: "sign_in ?s = monday 19 35 0" "endOrNow ?s (monday 22 0 0) = monday 20 5 0"
    "\<not> voided ?s" "cadet_id ?s = ''c1''"
    by (simp_all add: sessionOfPat_def endOrNow_def)
  have z: "America_New_York (monday 19 35 0) = - 18000000"
    "America_New_York (monday 20 5 0) = - 18000000"
    by (simp_all add: monday_def time_defs)
  have h: "\<not> voided ?s
      \<and> (weekdayIndex America_New_York (sign_in ?s) = 1 \<or> weekdayIndex America_New_York (sign_in ?s) = 3)
      \<and> dayNumber America_New_York (sign_in ?s) * MS_PER_DAY + 1170 * MS_PER_MINUTE
          \<le> localMs America_New_York (sign_in ?s)
      \<and> localMs America_New_York (sign_in ?s) \<le> localMs America_New_York (endOrNow ?s (monday 22 0 0))
      \<and> localMs America_New_York (endOrNow ?s (monday 22 0 0))
          \<le> dayNumber America_New_York (sign_in ?s) * MS_PER_DAY + 1290 * MS_PER_MINUTE
      \<and> America_New_York (sign_in ?s) = America_New_York (endOrNow ?s (monday 22 0 0))"
    by (simp add: f monday_weekday monday_day z localMs_def)
      (simp add: monday_def MS_PER_DAY_def MS_PER_MINUTE_def)
  have m: "(monday 20 5 0 - monday 19 35 0) div 60000 = 30"
    by (simp add: monday_def)
  from localTotal_raw_minutes [of "monday 22 0 0" "[]" "''c1''" ?s America_New_York] h
  show ?thesis
    by (simp add: f m monday_weekday)
qed

text \<open>
  C3 as stated fails: Pat's session from 19:00 to 22:00 of the Monday overlaps the window in
  120 minutes, and the total credits it 180.
\<close>

theorem localTotal_counterexample:
  "windowCredit_spec America_New_York (monday 22 0 0)
     (sessionOfPat ''s1'' (monday 19 0 0) (Some (monday 22 0 0))) = 120
   \<and> localTotal (monday 22 0 0) [sessionOfPat ''s1'' (monday 19 0 0) (Some (monday 22 0 0))] ''c1''
     = 180"
proof -
  let ?s = "sessionOfPat ''s1'' (monday 19 0 0) (Some (monday 22 0 0))"
  have z: "America_New_York (monday 19 0 0) = - 18000000"
    "America_New_York (monday 22 0 0) = - 18000000"
    by (simp_all add: monday_def time_defs)
  have "windowCredit_spec America_New_York (monday 22 0 0) ?s = 120"
    by (simp add: windowCredit_spec_def sessionOfPat_def endOrNow_def monday_weekday monday_day
        localMs_def z Let_def)
      (simp add: monday_def MS_PER_DAY_def MS_PER_MINUTE_def)
  moreover have "localTotal (monday 22 0 0) [?s] ''c1'' = 180"
    by (simp add: localTotal_def sessionOfPat_def endOrNow_def msToMin_def monday_def)
  ultimately show ?thesis by simp
qed

section \<open>Facts about the leaderboard rows and the edit panel\<close>

lemma displayRows_override:
  assumes "r \<in> set (displayRows tab leaderboard overridesMap)"
    and "r_cadetId (s_row r) = Some i" and "map_of overridesMap i = Some v"
  shows "total r = v \<and> pmiDays r = v div 240"
  using assms by (auto simp: displayRows_def pmiDays_def Let_def)

lemma displayRows_computed:
  assumes "r \<in> set (displayRows tab leaderboard overridesMap)"
    and "r_cadetId (s_row r) = Some i" and "map_of overridesMap i = None"
  shows "total r = totalMin (s_row r)"
  using assms by (auto simp: displayRows_def Let_def)

lemma fmt_parse_truncates:
  "parseLocal off (fmtLocal off t) = Some (t - (t + off) mod 60000)"
proof -
  have "(t + off) div 60000 * 60000 = (t + off) - (t + off) mod 60000"
    by (simp add: minus_mod_eq_div_mult [symmetric])
  then show ?thesis
    by (simp add: parseLocal_def fmtLocal_def MS_PER_MINUTE_def)
qed

text \<open>
  C8. Pat's stored session runs from 19:35:50 to 20:05:10. The administrator opens the
  edit panel for Pat's row on a device on Eastern time, types 1000 into the override field,
  touches nothing else and saves. The override is stored; and the stored session now runs
  from 19:35:00 to 20:05:00, so that its raw duration in whole minutes went from 29 to 30.
\<close>

theorem saveEdits_override_rewrites_sessions:
  "fst (saveEdits True (saveAt (\<lambda>i. False))
         ((openEditForLeaderboardRow ilikePlain True deviceInNewYork rowOfPat
             (storeOfPat [sessionOfPat ''s1'' (monday 19 35 50) (Some (monday 20 5 10))]))
            \<lparr>editOverride := Some 1000\<rparr>)) = Inr ()
   \<and> db_overrides (snd (saveEdits True (saveAt (\<lambda>i. False))
         ((openEditForLeaderboardRow ilikePlain True deviceInNewYork rowOfPat
             (storeOfPat [sessionOfPat ''s1'' (monday 19 35 50) (Some (monday 20 5 10))]))
            \<lparr>editOverride := Some 1000\<rparr>))) = [(''c1'', 1000)]
   \<and> db_sessions (snd (saveEdits True (saveAt (\<lambda>i. False))
         ((openEditForLeaderboardRow ilikePlain True deviceInNewYork rowOfPat
             (storeOfPat [sessionOfPat ''s1'' (monday 19 35 50) (Some (monday 20 5 10))]))
            \<lparr>editOverride := Some 1000\<rparr>)))
       = [sessionOfPat ''s1'' (monday 19 35 0) (Some (monday 20 5 0))]
   \<and> sessionOfPat ''s1'' (monday 19 35 0) (Some (monday 20 5 0))
       \<noteq> sessionOfPat ''s1'' (monday 19 35 50) (Some (monday 20 5 10))
   \<and> msToMin (monday 20 5 10 - monday 19 35 50) = 29
   \<and> msToMin (monday 20 5 0 - monday 19 35 0) = 30"
proof -
  let ?st0 = "storeOfPat [sessionOfPat ''s1'' (monday 19 35 50) (Some (monday 20 5 10))]"
  let ?st1 = "openEditForLeaderboardRow ilikePlain True deviceInNewYork rowOfPat ?st0"
  have opened: "?st1 = ?st0\<lparr>editCadet := Some pat,
      editSessions := [sessionOfPat ''s1'' (monday 19 35 50) (Some (monday 20 5 10))],
      editDraft := [(''s1'', \<lparr> d_sign_in = fmtLocal deviceInNewYork (monday 19 35 50),
                             d_sign_out = fmtLocal deviceInNewYork (monday 20 5 10) \<rparr>)],
      editOverride := None\<rparr>"
    by (simp add: openEditForLeaderboardRow_def rowOfPat_def storeOfPat_def pat_def
        sessionOfPat_def maybeSingle_def Let_def)
  have saved: "saveEdits True (saveAt (\<lambda>i. False)) (?st1\<lparr>editOverride := Some 1000\<rparr>)
      = (Inr (), ?st0\<lparr>db_sessions := [sessionOfPat ''s1'' (monday 19 35 0) (Some (monday 20 5 0))],
                       db_overrides := [(''c1'', 1000)], statusMsg := Some SavedEdits\<rparr>)"
    unfolding opened
    by (simp add: saveEdits_def saveAt_def storeOfPat_def pat_def sessionOfPat_def
        parseLocal_def fmtLocal_def deviceInNewYork_def updateWhereId_def setItem_def
        monday_def MS_PER_MINUTE_def Let_def)
  have differ: "sessionOfPat ''s1'' (monday 19 35 0) (Some (monday 20 5 0))
       \<noteq> sessionOfPat ''s1'' (monday 19 35 50) (Some (monday 20 5 10))"
    by (simp add: sessionOfPat_def monday_def)
  have minutes: "msToMin (monday 20 5 10 - monday 19 35 50) = 29"
    "msToMin (monday 20 5 0 - monday 19 35 0) = 30"
    by (simp_all add: msToMin_def monday_def)
  from differ minutes show ?thesis
    by (simp add: saved)
qed

section \<open>Facts about failing operations\<close>


text \<open>
  C9, as amended. A sign-out that fails changes no stored record, and neither does a
  sign-in that fails the validation or the window check. A sign-in that fails later leaves
  the stored sessions and overrides untouched (the participant record may have been saved
  already). A save of the administrator's edits that fails leaves the stored participants
  and overrides untouched (the updates of sessions sent before the failure stay in the
  store).
\<close>

theorem failing_operations_frame:
  "(fst (handleSignOut hasSupabase now err st) = Inl x
      \<longrightarrow> db_cadets (snd (handleSignOut hasSupabase now err st)) = db_cadets st
        \<and> db_sessions (snd (handleSignOut hasSupabase now err st)) = db_sessions st
        \<and> db_overrides (snd (handleSignOut hasSupabase now err st)) = db_overrides st
        \<and> ls_sessions (snd (handleSignOut hasSupabase now err st)) = ls_sessions st)
   \<and> (fst (handleSignIn TZ ilike hasSupabase e st) = Inl x
      \<longrightarrow> db_sessions (snd (handleSignIn TZ ilike hasSupabase e st)) = db_sessions st
        \<and> db_overrides (snd (handleSignIn TZ ilike hasSupabase e st)) = db_overrides st
        \<and> ls_sessions (snd (handleSignIn TZ ilike hasSupabase e st)) = ls_sessions st
        \<and> (x = ValidationError \<or> x = ClosedWindowError
            \<longrightarrow> db_cadets (snd (handleSignIn TZ ilike hasSupabase e st)) = db_cadets st))
   \<and> (fst (saveEdits hasSupabase ee st) = Inl x
      \<longrightarrow> db_cadets (snd (saveEdits hasSupabase ee st)) = db_cadets st
        \<and> db_overrides (snd (saveEdits hasSupabase ee st)) = db_overrides st
        \<and> ls_sessions (snd (saveEdits hasSupabase ee st)) = ls_sessions st)"
proof (intro conjI impI)
  assume "fst (handleSignOut hasSupabase now err st) = Inl x"
  then have "snd (handleSignOut hasSupabase now err st) = st
      \<or> snd (handleSignOut hasSupabase now err st) = st\<lparr>statusMsg := Some SignOutFailed\<rparr>"
    by (auto simp: handleSignOut_def split: option.splits if_splits)
  then show "db_cadets (snd (handleSignOut hasSupabase now err st)) = db_cadets st"
    and "db_sessions (snd (handleSignOut hasSupabase now err st)) = db_sessions st"
    and "db_overrides (snd (handleSignOut hasSupabase now err st)) = db_overrides st"
    and "ls_sessions (snd (handleSignOut hasSupabase now err st)) = ls_sessions st"
    by auto
next
  assume f: "fst (handleSignIn TZ ilike hasSupabase e st) = Inl x"
  have remote: "fst (signInRemote TZ ilike e st c) = Inl y
      \<Longrightarrow> db_sessions (snd (signInRemote TZ ilike e st c)) = db_sessions st
        \<and> db_overrides (snd (signInRemote TZ ilike e st c)) = db_overrides st
        \<and> ls_sessions (snd (signInRemote TZ ilike e st c)) = ls_sessions st
        \<and> y \<noteq> ValidationError \<and> y \<noteq> ClosedWindowError" for c y
    by (auto simp: signInRemote_def Let_def saveLocalCadet_def
        split: if_splits response.splits option.splits)
  have "local": "fst (signInLocal e st c) \<noteq> Inl y" for c y
    by (simp add: signInLocal_def Let_def)
  from f remote "local"
  have all: "db_sessions (snd (handleSignIn TZ ilike hasSupabase e st)) = db_sessions st
      \<and> db_overrides (snd (handleSignIn TZ ilike hasSupabase e st)) = db_overrides st
      \<and> ls_sessions (snd (handleSignIn TZ ilike hasSupabase e st)) = ls_sessions st
      \<and> (x = ValidationError \<or> x = ClosedWindowError
            \<longrightarrow> db_cadets (snd (handleSignIn TZ ilike hasSupabase e st)) = db_cadets st)"
    by (auto simp: handleSignIn_def Let_def split: option.splits if_splits)
  from all show "db_sessions (snd (handleSignIn TZ ilike hasSupabase e st)) = db_sessions st"
    by simp
  from all show "db_overrides (snd (handleSignIn TZ ilike hasSupabase e st)) = db_overrides st"
    by simp
  from all show "ls_sessions (snd (handleSignIn TZ ilike hasSupabase e st)) = ls_sessions st"
    by simp
  assume "x = ValidationError \<or> x = ClosedWindowError"
  with all show "db_cadets (snd (handleSignIn TZ ilike hasSupabase e st)) = db_cadets st"
    by simp
next
  assume "fst (saveEdits hasSupabase ee st) = Inl x"
  then have all: "db_cadets (snd (saveEdits hasSupabase ee st)) = db_cadets st
      \<and> db_overrides (snd (saveEdits hasSupabase ee st)) = db_overrides st
      \<and> ls_sessions (snd (saveEdits hasSupabase ee st)) = ls_sessions st"
    by (auto simp: saveEdits_def Let_def split: option.splits if_splits prod.splits bool.splits)
  from all show "db_cadets (snd (saveEdits hasSupabase ee st)) = db_cadets st" by simp
  from all show "db_overrides (snd (saveEdits hasSupabase ee st)) = db_overrides st" by simp
  from all show "ls_sessions (snd (saveEdits hasSupabase ee st)) = ls_sessions st" by simp
qed

text \<open>
  A sign-out that the store rejects, a sign-in at 21:40, and a save of edits of which the
  store rejects the second update.
\<close>

theorem failing_operations_frame_witness:
  "fst (handleSignOut True (monday 20 50 0) True
         ((storeOfPat [sessionOfPat ''s1'' (monday 20 0 0) None])
            \<lparr>activeSession := Some (sessionOfPat ''s1'' (monday 20 0 0) None)\<rparr>))
     = Inl PersistenceError
   \<and> db_sessions (snd (handleSignOut True (monday 20 50 0) True
         ((storeOfPat [sessionOfPat ''s1'' (monday 20 0 0) None])
            \<lparr>activeSession := Some (sessionOfPat ''s1'' (monday 20 0 0) None)\<rparr>)))
     = [sessionOfPat ''s1'' (monday 20 0 0) None]
   \<and> fst (handleSignIn America_New_York ilikePlain True (callAt (monday 21 40 0))
         (storeOfPat [sessionOfPat ''s1'' (monday 21 0 0) None]))
     = Inl ClosedWindowError
   \<and> db_cadets (snd (handleSignIn America_New_York ilikePlain True (callAt (monday 21 40 0))
         (storeOfPat [sessionOfPat ''s1'' (monday 21 0 0) None])))
     = [pat]
   \<and> db_sessions (snd (handleSignIn America_New_York ilikePlain True (callAt (monday 21 40 0))
         (storeOfPat [sessionOfPat ''s1'' (monday 21 0 0) None])))
     = [sessionOfPat ''s1'' (monday 21 0 0) None]
   \<and> fst (saveEdits True (saveAt (\<lambda>i. i = ''s2''))
         ((storeOfPat [sessionOfPat ''s1'' (monday 19 30 0) (Some (monday 20 0 0)),
                       sessionOfPat ''s2'' (monday 20 30 0) (Some (monday 21 0 0))])
            \<lparr>editCadet := Some pat,
             editDraft :=
               [(''s1'', \<lparr> d_sign_in = fmtLocal deviceInNewYork (monday 19 40 0),
                          d_sign_out = fmtLocal deviceInNewYork (monday 20 0 0) \<rparr>),
                (''s2'', \<lparr> d_sign_in = fmtLocal deviceInNewYork (monday 20 30 0),
                          d_sign_out = fmtLocal deviceInNewYork (monday 21 0 0) \<rparr>)]\<rparr>))
     = Inl PersistenceError
   \<and> db_overrides (snd (saveEdits True (saveAt (\<lambda>i. i = ''s2''))
         ((storeOfPat [sessionOfPat ''s1'' (monday 19 30 0) (Some (monday 20 0 0)),
                       sessionOfPat ''s2'' (monday 20 30 0) (Some (monday 21 0 0))])
            \<lparr>editCadet := Some pat,
             editDraft :=
               [(''s1'', \<lparr> d_sign_in = fmtLocal deviceInNewYork (monday 19 40 0),
                          d_sign_out = fmtLocal deviceInNewYork (monday 20 0 0) \<rparr>),
                (''s2'', \<lparr> d_sign_in = fmtLocal deviceInNewYork (monday 20 30 0),
                          d_sign_out = fmtLocal deviceInNewYork (monday 21 0 0) \<rparr>)]\<rparr>)))
     = []"
proof -
  let ?a = "sessionOfPat ''s1'' (monday 20 0 0) None"
  let ?out = "(storeOfPat [?a])\<lparr>activeSession := Some ?a\<rparr>"
  let ?late = "storeOfPat [sessionOfPat ''s1'' (monday 21 0 0) None]"
  let ?edit = "(storeOfPat [sessionOfPat ''s1'' (monday 19 30 0) (Some (monday 20 0 0)),
                       sessionOfPat ''s2'' (monday 20 30 0) (Some (monday 21 0 0))])
            \<lparr>editCadet := Some pat,
             editDraft :=
               [(''s1'', \<lparr> d_sign_in = fmtLocal deviceInNewYork (monday 19 40 0),
                          d_sign_out = fmtLocal deviceInNewYork (monday 20 0 0) \<rparr>),
                (''s2'', \<lparr> d_sign_in = fmtLocal deviceInNewYork (monday 20 30 0),
                          d_sign_out = fmtLocal deviceInNewYork (monday 21 0 0) \<rparr>)]\<rparr>"
  have out: "fst (handleSignOut True (monday 20 50 0) True ?out) = Inl PersistenceError"
    by (simp add: handleSignOut_def storeOfPat_def)
  have late: "fst (handleSignIn America_New_York ilikePlain True (callAt (monday 21 40 0)) ?late)
      = Inl ClosedWindowError"
    by (simp add: handleSignIn_def storeOfPat_def callAt_def clock)
  have edit: "fst (saveEdits True (saveAt (\<lambda>i. i = ''s2'')) ?edit) = Inl PersistenceError"
    by (simp add: saveEdits_def saveAt_def storeOfPat_def fmtLocal_def parseLocal_def
        split: prod.splits)
  have stores: "db_sessions ?out = [?a]" "db_cadets ?late = [pat]"
    "db_sessions ?late = [sessionOfPat ''s1'' (monday 21 0 0) None]" "db_overrides ?edit = []"
    by (simp_all add: storeOfPat_def)
  from failing_operations_frame [where x = PersistenceError and hasSupabase = True
      and now = "monday 20 50 0" and err = True and st = ?out and ee = "saveAt (\<lambda>i. i = ''s2'')"]
    failing_operations_frame [where x = ClosedWindowError and hasSupabase = True
      and TZ = America_New_York and ilike = ilikePlain and e = "callAt (monday 21 40 0)"
      and st = ?late]
    failing_operations_frame [where x = PersistenceError and hasSupabase = True
      and st = ?edit and ee = "saveAt (\<lambda>i. i = ''s2'')"]
    out late edit
  show ?thesis
    by (simp add: stores)
qed

text \<open>
  C9 as stated fails. (a) The administrator moves the sign-in of Pat's first session to
  19:40 and saves, and the store rejects the update of the second session: the save fails,
  and the first session stays changed in the store. (b) A participant not yet known to the
  store signs in at 20:10 and the store rejects the new session: the sign-in fails, and
  the participant record stays in the store.
\<close>

theorem failing_operations_counterexample:
  "fst (saveEdits True (saveAt (\<lambda>i. i = ''s2''))
         ((storeOfPat [sessionOfPat ''s1'' (monday 19 30 0) (Some (monday 20 0 0)),
                       sessionOfPat ''s2'' (monday 20 30 0) (Some (monday 21 0 0))])
            \<lparr>editCadet := Some pat,
             editDraft :=
               [(''s1'', \<lparr> d_sign_in = fmtLocal deviceInNewYork (monday 19 40 0),
                          d_sign_out = fmtLocal deviceInNewYork (monday 20 0 0) \<rparr>),
                (''s2'', \<lparr> d_sign_in = fmtLocal deviceInNewYork (monday 20 30 0),
                          d_sign_out = fmtLocal deviceInNewYork (monday 21 0 0) \<rparr>)]\<rparr>))
     = Inl PersistenceError
   \<and> db_sessions (snd (saveEdits True (saveAt (\<lambda>i. i = ''s2''))
         ((storeOfPat [sessionOfPat ''s1'' (monday 19 30 0) (Some (monday 20 0 0)),
                       sessionOfPat ''s2'' (monday 20 30 0) (Some (monday 21 0 0))])
            \<lparr>editCadet := Some pat,
             editDraft :=
               [(''s1'', \<lparr> d_sign_in = fmtLocal deviceInNewYork (monday 19 40 0),
                          d_sign_out = fmtLocal deviceInNewYork (monday 20 0 0) \<rparr>),
                (''s2'', \<lparr> d_sign_in = fmtLocal deviceInNewYork (monday 20 30 0),
                          d_sign_out = fmtLocal deviceInNewYork (monday 21 0 0) \<rparr>)]\<rparr>)))
     = [sessionOfPat ''s1'' (monday 19 40 0) (Some (monday 20 0 0)),
        sessionOfPat ''s2'' (monday 20 30 0) (Some (monday 21 0 0))]
   \<and> sessionOfPat ''s1'' (monday 19 40 0) (Some (monday 20 0 0))
       \<noteq> sessionOfPat ''s1'' (monday 19 30 0) (Some (monday 20 0 0))
   \<and> fst (handleSignIn America_New_York ilikePlain True
         ((callAt (monday 20 10 0))\<lparr>err_insert := True\<rparr>)
         ((storeOfPat [])\<lparr>db_cadets := []\<rparr>))
     = Inl PersistenceError
   \<and> db_cadets (snd (handleSignIn America_New_York ilikePlain True
         ((callAt (monday 20 10 0))\<lparr>err_insert := True\<rparr>)
         ((storeOfPat [])\<lparr>db_cadets := []\<rparr>)))
     = [pat\<lparr>c_id := ''c-new''\<rparr>]"
proof -
  let ?edit = "(storeOfPat [sessionOfPat ''s1'' (monday 19 30 0) (Some (monday 20 0 0)),
                       sessionOfPat ''s2'' (monday 20 30 0) (Some (monday 21 0 0))])
            \<lparr>editCadet := Some pat,
             editDraft :=
               [(''s1'', \<lparr> d_sign_in = fmtLocal deviceInNewYork (monday 19 40 0),
                          d_sign_out = fmtLocal deviceInNewYork (monday 20 0 0) \<rparr>),
                (''s2'', \<lparr> d_sign_in = fmtLocal deviceInNewYork (monday 20 30 0),
                          d_sign_out = fmtLocal deviceInNewYork (monday 21 0 0) \<rparr>)]\<rparr>"
  let ?new = "(storeOfPat [])\<lparr>db_cadets := []\<rparr>"
  let ?e = "(callAt (monday 20 10 0))\<lparr>err_insert := True\<rparr>"
  have edit: "saveEdits True (saveAt (\<lambda>i. i = ''s2'')) ?edit
      = (Inl PersistenceError,
         ?edit\<lparr>db_sessions := [sessionOfPat ''s1'' (monday 19 40 0) (Some (monday 20 0 0)),
                                sessionOfPat ''s2'' (monday 20 30 0) (Some (monday 21 0 0))],
                statusMsg := Some SaveFailed\<rparr>)"
    by (simp add: saveEdits_def saveAt_def storeOfPat_def sessionOfPat_def fmtLocal_def
        parseLocal_def updateWhereId_def deviceInNewYork_def monday_def MS_PER_MINUTE_def)
  have differ: "sessionOfPat ''s1'' (monday 19 40 0) (Some (monday 20 0 0))
       \<noteq> sessionOfPat ''s1'' (monday 19 30 0) (Some (monday 20 0 0))"
    by (simp add: sessionOfPat_def monday_def)
  have c: "resolvedCadet ilikePlain ?e ?new (formCadet ?e ?new K1C) = pat\<lparr>c_id := ''c-new''\<rparr>"
    by (simp add: resolvedCadet_def resolveCadetId_def formCadet_def storeOfPat_def pat_def
        callAt_def normalizeName_pat maybeSingle_def)
  have recent: "\<not> 120 \<le> minutesTonightET America_New_York
      (recentSessions (monday 20 10 0 - 129600000) ''c-new'' []) (monday 20 10 0)"
    by (simp add: recentSessions_def accrual)
  have h: "handleSignIn America_New_York ilikePlain True ?e ?new
      = signInRemote America_New_York ilikePlain ?e ?new (formCadet ?e ?new K1C)"
    by (rule handleSignIn_valid) (simp_all add: storeOfPat_def callAt_def clock)
  have r: "signInRemote America_New_York ilikePlain ?e ?new (formCadet ?e ?new K1C)
      = (Inl PersistenceError,
         ?new\<lparr>db_cadets := [pat\<lparr>c_id := ''c-new''\<rparr>], statusMsg := Some SignInFailed\<rparr>)"
    using recent
    by (simp add: signInRemote_def c Let_def)
      (simp add: storeOfPat_def callAt_def pat_def maybeSingle_def openSessionsOf_def
        upsertCadet_def TWO_HOURS_MIN_def Let_def)
  from differ show ?thesis
    by (simp add: edit h r)
qed

end
